theory Spec2Isabelle
  imports Complex_Main "HOL-Library.Multiset"
begin

section \<open>Errors\<close>

text \<open>
  The exceptions the script can end with. \<open>IndexError\<close>, \<open>RuntimeError\<close>, \<open>ValueError\<close> and
  \<open>ZeroDivisionError\<close> are what the tensor library and Python's tuple indexing and
  arithmetic raise, \<open>NotImplementedError\<close> is raised by the driver itself, \<open>ExternalFailure\<close>
  stands for any exception raised inside a call to the reinforcement-learning framework (the
  script catches nothing, so it propagates).
\<close>

datatype error =
  IndexError | RuntimeError | ValueError | ZeroDivisionError | NotImplementedError | ExternalFailure

section \<open>Tensors\<close>

text \<open>
  A tensor is its shape and its elements in row-major order. The elements are reals: the
  32-bit floats of the library are idealised, \<open>.float()\<close> is the identity and sums are exact.
  Statements about values are therefore made only at inputs whose sums and products are
  exact in 32-bit floats whatever the order of accumulation (small integers).
\<close>

datatype tensor = Tensor (shape: "nat list") (data: "real list")

definition numel :: "nat list \<Rightarrow> nat" where
  "numel s = prod_list s"

definition wf_tensor :: "tensor \<Rightarrow> bool" where
  "wf_tensor t = (length (data t) = numel (shape t))"

text \<open>\<open>rows k n xs\<close>: the first \<open>k\<close> consecutive blocks of width \<open>n\<close> of \<open>xs\<close>.\<close>

definition rows :: "nat \<Rightarrow> nat \<Rightarrow> 'a list \<Rightarrow> 'a list list" where
  "rows k n xs = map (\<lambda>i. take n (drop (i * n) xs)) [0..<k]"

definition dot :: "real list \<Rightarrow> real list \<Rightarrow> real" where
  "dot w x = sum_list (map2 (*) w x)"

definition float_cast :: "tensor \<Rightarrow> tensor" where
  "float_cast t = t"

text \<open>
  \<open>torch.squeeze(t, d)\<close> for a dimension \<open>d \<ge> 0\<close>: the dimension must exist (a 0-d tensor
  counts as having one), and it is removed when its size is 1; otherwise the tensor is
  returned as it is.
\<close>

definition squeeze_dim :: "nat \<Rightarrow> tensor \<Rightarrow> error + tensor" where
  "squeeze_dim d t =
     (if d < max 1 (length (shape t)) then
        (if d < length (shape t) \<and> shape t ! d = 1
         then Inr (Tensor (take d (shape t) @ drop (Suc d) (shape t)) (data t))
         else Inr t)
      else Inl IndexError)"

text \<open>\<open>torch.squeeze(t)\<close> with no dimension removes every dimension of size 1.\<close>

definition squeeze :: "tensor \<Rightarrow> tensor" where
  "squeeze t = Tensor (filter (\<lambda>n. n \<noteq> 1) (shape t)) (data t)"

definition relu :: "tensor \<Rightarrow> tensor" where
  "relu t = Tensor (shape t) (map (\<lambda>x. max 0 x) (data t))"

text \<open>
  \<open>torch.cat((a, b), dim=1)\<close>. A 0-d tensor cannot be concatenated. A 1-d tensor of shape
  \<open>(0,)\<close> is skipped (the library's legacy rule); otherwise dimension 1 must exist, both tensors must have the same number of
  dimensions and agree in every dimension but dimension 1. Row \<open>i\<close> of the result is row
  \<open>i\<close> of \<open>a\<close> followed by row \<open>i\<close> of \<open>b\<close>.
\<close>

definition cat1 :: "tensor \<Rightarrow> tensor \<Rightarrow> error + tensor" where
  "cat1 a b =
     (let sa = shape a; sb = shape b in
      if sa = [] \<or> sb = [] then Inl RuntimeError
      else if sa = [0] \<and> sb = [0] then Inr (Tensor [0] [])
      else if sa = [0] then (if length sb < 2 then Inl IndexError else Inr b)
      else if sb = [0] then (if length sa < 2 then Inl IndexError else Inr a)
      else if length sa < 2 then Inl IndexError
      else if length sa \<noteq> length sb then Inl RuntimeError
      else if hd sa \<noteq> hd sb \<or> drop 2 sa \<noteq> drop 2 sb then Inl RuntimeError
      else
        (let ca = sa ! 1 * numel (drop 2 sa); cb = sb ! 1 * numel (drop 2 sb) in
         Inr (Tensor (hd sa # (sa ! 1 + sb ! 1) # drop 2 sa)
                (concat (map (\<lambda>i. take ca (drop (i * ca) (data a)) @
                                    take cb (drop (i * cb) (data b)))
                           [0..<hd sa])))))"

section \<open>Linear layers\<close>

text \<open>
  \<open>nn.Linear(n_in, n_out)\<close> holds a weight of shape \<open>(n_out, n_in)\<close> and a bias of shape
  \<open>(n_out,)\<close>. Applied to an input of shape \<open>(*, n_in)\<close> it returns \<open>x W\<^sup>T + b\<close> of shape
  \<open>(*, n_out)\<close>; any other input raises.
\<close>

record Linear =
  weight :: tensor
  bias :: tensor

definition Linear_forward :: "Linear \<Rightarrow> tensor \<Rightarrow> error + tensor" where
  "Linear_forward l x =
     (case shape (weight l) of
        [n_out, n_in] \<Rightarrow>
          if shape x = [] \<or> last (shape x) \<noteq> n_in \<or> shape (bias l) \<noteq> [n_out]
          then Inl RuntimeError
          else Inr (Tensor (butlast (shape x) @ [n_out])
                 (concat (map (\<lambda>r. map2 (\<lambda>w b. dot w r + b)
                                        (rows n_out n_in (data (weight l))) (data (bias l)))
                            (rows (numel (butlast (shape x))) n_in (data x)))))
      | _ \<Rightarrow> Inl RuntimeError)"

section \<open>The two networks\<close>

text \<open>
  \<open>CriticNetwork\<close> and \<open>ActorNetwork\<close> hold the same three attributes \<open>_h1\<close>, \<open>_h2\<close>,
  \<open>_h3\<close>; one record serves both.
\<close>

record net =
  h1 :: Linear
  h2 :: Linear
  h3 :: Linear

definition CriticNetwork_forward :: "net \<Rightarrow> tensor \<Rightarrow> tensor \<Rightarrow> error + tensor" where
  "CriticNetwork_forward self state action =
     (case cat1 (float_cast state) (float_cast action) of
        Inl e \<Rightarrow> Inl e
      | Inr state_action \<Rightarrow>
     (case Linear_forward (h1 self) state_action of
        Inl e \<Rightarrow> Inl e
      | Inr a1 \<Rightarrow>
     (case Linear_forward (h2 self) (relu a1) of
        Inl e \<Rightarrow> Inl e
      | Inr a2 \<Rightarrow>
     (case Linear_forward (h3 self) (relu a2) of
        Inl e \<Rightarrow> Inl e
      | Inr q \<Rightarrow> Inr (squeeze q)))))"

definition ActorNetwork_forward :: "net \<Rightarrow> tensor \<Rightarrow> error + tensor" where
  "ActorNetwork_forward self state =
     (case squeeze_dim 1 state of
        Inl e \<Rightarrow> Inl e
      | Inr s \<Rightarrow>
     (case Linear_forward (h1 self) (float_cast s) of
        Inl e \<Rightarrow> Inl e
      | Inr a1 \<Rightarrow>
     (case Linear_forward (h2 self) (relu a1) of
        Inl e \<Rightarrow> Inl e
      | Inr a2 \<Rightarrow> Linear_forward (h3 self) (relu a2))))"

text \<open>
  What the constructors establish: layer \<open>_h1\<close> maps \<open>n_input\<close> to \<open>n_features\<close>, \<open>_h2\<close>
  maps \<open>n_features\<close> to \<open>n_features\<close>, \<open>_h3\<close> maps \<open>n_features\<close> to \<open>n_output\<close>.
\<close>

definition wf_Linear :: "nat \<Rightarrow> nat \<Rightarrow> Linear \<Rightarrow> bool" where
  "wf_Linear n_in n_out l =
     (shape (weight l) = [n_out, n_in] \<and> wf_tensor (weight l) \<and>
      shape (bias l) = [n_out] \<and> wf_tensor (bias l))"

definition wf_net :: "nat \<Rightarrow> nat \<Rightarrow> nat \<Rightarrow> net \<Rightarrow> bool" where
  "wf_net n_input n_features n_output self =
     (wf_Linear n_input n_features (h1 self) \<and>
      wf_Linear n_features n_features (h2 self) \<and>
      wf_Linear n_features n_output (h3 self))"

section \<open>Initialisation\<close>

text \<open>
  The library's global random generator is an explicit state: the sequence of uniform
  samples from \<open>[0, 1)\<close> it will deliver. \<open>tensor.uniform_(lo, hi)\<close> fills a tensor with
  \<open>lo + (hi - lo) * u\<close> for fresh samples \<open>u\<close>, in row-major order.
\<close>

type_synonym rng = "nat \<Rightarrow> real"

definition advance :: "rng \<Rightarrow> nat \<Rightarrow> rng" where
  "advance g n = (\<lambda>i. g (i + n))"

definition uniform_fill :: "nat list \<Rightarrow> real \<Rightarrow> real \<Rightarrow> rng \<Rightarrow> tensor \<times> rng" where
  "uniform_fill sh lo hi g =
     (Tensor sh (map (\<lambda>i. lo + (hi - lo) * g i) [0..<numel sh]), advance g (numel sh))"

text \<open>\<open>nn.init.calculate_gain\<close>, for the two names the script passes.\<close>

datatype nonlinearity = relu_gain | linear_gain

fun calculate_gain :: "nonlinearity \<Rightarrow> real" where
  "calculate_gain relu_gain = sqrt 2"
| "calculate_gain linear_gain = 1"

text \<open>
  \<open>nn.init.xavier_uniform_(w, gain)\<close> on a weight of shape \<open>(fan_out, fan_in)\<close>: the bound is
  \<open>sqrt 3 * gain * sqrt (2 / (fan_in + fan_out))\<close>, and the weight is refilled uniformly in
  \<open>[-bound, bound)\<close>. The fans are defined for a tensor of two dimensions, which is all the
  script passes; fewer dimensions raise \<open>ValueError\<close>, and more are refused here in the
  same way. A sum of fans of 0 is a division by zero.
\<close>

definition xavier_bound :: "real \<Rightarrow> nat \<Rightarrow> nat \<Rightarrow> real" where
  "xavier_bound gain fan_in fan_out = sqrt 3 * (gain * sqrt (2 / real (fan_in + fan_out)))"

definition xavier_uniform :: "tensor \<Rightarrow> real \<Rightarrow> rng \<Rightarrow> error + tensor \<times> rng" where
  "xavier_uniform w gain g =
     (case shape w of
        [fan_out, fan_in] \<Rightarrow>
          if fan_in + fan_out = 0 then Inl ZeroDivisionError
          else Inr (uniform_fill (shape w) (- xavier_bound gain fan_in fan_out)
                      (xavier_bound gain fan_in fan_out) g)
      | _ \<Rightarrow> Inl ValueError)"

text \<open>
  \<open>nn.Linear(n_in, n_out)\<close> allocates the weight and the bias and resets them: the weight
  with \<open>kaiming_uniform_(a = sqrt 5)\<close>, bound \<open>sqrt 3 * sqrt (2 / (1 + a\<^sup>2)) / sqrt n_in\<close>, and
  the bias uniformly in \<open>[-1 / sqrt n_in, 1 / sqrt n_in)\<close> (bound 0 when \<open>n_in = 0\<close>). A weight
  with \<open>n_in = 0\<close> has no element to fill.
\<close>

definition kaiming_bound :: "real \<Rightarrow> nat \<Rightarrow> real" where
  "kaiming_bound a fan = sqrt 3 * (sqrt (2 / (1 + a\<^sup>2)) / sqrt (real fan))"

definition Linear_init :: "nat \<Rightarrow> nat \<Rightarrow> rng \<Rightarrow> Linear \<times> rng" where
  "Linear_init n_in n_out g =
     (let (w, g1) = uniform_fill [n_out, n_in] (- kaiming_bound (sqrt 5) n_in)
                      (kaiming_bound (sqrt 5) n_in) g;
          bound = (if n_in > 0 then 1 / sqrt (real n_in) else 0);
          (b, g2) = uniform_fill [n_out] (- bound) bound g1
      in (\<lparr>weight = w, bias = b\<rparr>, g2))"

text \<open>
  The two constructors have the same body. \<open>input_shape[-1]\<close> and \<open>output_shape[0]\<close>
  raise \<open>IndexError\<close> on an empty tuple; keyword arguments beyond the three named ones are
  ignored.
\<close>

definition CriticNetwork_init :: "nat list \<Rightarrow> nat list \<Rightarrow> nat \<Rightarrow> rng \<Rightarrow> error + net \<times> rng" where
  "CriticNetwork_init input_shape output_shape n_features g =
     (if input_shape = [] \<or> output_shape = [] then Inl IndexError
      else
        (let n_input = last input_shape;
             n_output = hd output_shape;
             (l1, g1) = Linear_init n_input n_features g;
             (l2, g2) = Linear_init n_features n_features g1;
             (l3, g3) = Linear_init n_features n_output g2
         in case xavier_uniform (weight l1) (calculate_gain relu_gain) g3 of
              Inl e \<Rightarrow> Inl e
            | Inr (w1, g4) \<Rightarrow>
           (case xavier_uniform (weight l2) (calculate_gain relu_gain) g4 of
              Inl e \<Rightarrow> Inl e
            | Inr (w2, g5) \<Rightarrow>
           (case xavier_uniform (weight l3) (calculate_gain linear_gain) g5 of
              Inl e \<Rightarrow> Inl e
            | Inr (w3, g6) \<Rightarrow>
                Inr (\<lparr>h1 = l1\<lparr>weight := w1\<rparr>, h2 = l2\<lparr>weight := w2\<rparr>,
                      h3 = l3\<lparr>weight := w3\<rparr>\<rparr>, g6)))))"

definition ActorNetwork_init :: "nat list \<Rightarrow> nat list \<Rightarrow> nat \<Rightarrow> rng \<Rightarrow> error + net \<times> rng" where
  "ActorNetwork_init input_shape output_shape n_features g =
     (if input_shape = [] \<or> output_shape = [] then Inl IndexError
      else
        (let n_input = last input_shape;
             n_output = hd output_shape;
             (l1, g1) = Linear_init n_input n_features g;
             (l2, g2) = Linear_init n_features n_features g1;
             (l3, g3) = Linear_init n_features n_output g2
         in case xavier_uniform (weight l1) (calculate_gain relu_gain) g3 of
              Inl e \<Rightarrow> Inl e
            | Inr (w1, g4) \<Rightarrow>
           (case xavier_uniform (weight l2) (calculate_gain relu_gain) g4 of
              Inl e \<Rightarrow> Inl e
            | Inr (w2, g5) \<Rightarrow>
           (case xavier_uniform (weight l3) (calculate_gain linear_gain) g5 of
              Inl e \<Rightarrow> Inl e
            | Inr (w3, g6) \<Rightarrow>
                Inr (\<lparr>h1 = l1\<lparr>weight := w1\<rparr>, h2 = l2\<lparr>weight := w2\<rparr>,
                      h3 = l3\<lparr>weight := w3\<rparr>\<rparr>, g6)))))"

section \<open>The forward passes as sequences of library calls\<close>






section \<open>The experiment driver\<close>

text \<open>
  The driver's work is a sequence of calls into the framework. The model records every such
  call, in order, as an event carrying the arguments the script passes.
\<close>

datatype env_class = AirHockeyHit | AirHockeyDefend

datatype network_class = ActorNetwork | CriticNetwork

datatype optimizer_class = Adam

datatype loss_function = mse_loss

record approximator_params =
  network :: network_class
  n_features :: nat
  input_shape :: "nat list"
  output_shape :: "nat list"
  use_cuda :: bool

record optimizer_params =
  opt_class :: optimizer_class
  lr :: real

record critic_approximator_params = approximator_params +
  optimizer :: optimizer_params
  loss :: loss_function

text \<open>
  The arguments of the algorithm's constructor. \<open>critic_fit_params\<close> is always \<open>None\<close> and is
  left out.
\<close>

record agent_args =
  mdp_info :: env_class
  actor_mu_params :: approximator_params
  actor_sigma_params :: approximator_params
  actor_optimizer :: optimizer_params
  critic_params :: critic_approximator_params
  batch_size :: nat
  initial_replay_size :: nat
  max_replay_size :: nat
  warmup_transitions :: nat
  tau :: real
  lr_alpha :: real

text \<open>The agent a \<open>Core\<close> is built around: the one constructed, or the one loaded from a file.\<close>

datatype agent_ref = Constructed | Loaded string

text \<open>\<open>evaluate\<close> is given either \<open>n_steps\<close> or \<open>n_episodes\<close>.\<close>

datatype budget = n_steps int | n_episodes int

datatype event =
    np_random_seed
  | Logger_new string
  | strong_line
  | info string
  | mdp_new env_class nat real nat
  | cuda_is_available
  | alg_new string agent_args
  | agent_load string
  | Core_new agent_ref
  | evaluate budget bool bool
  | parse_dataset
  | compute_J "real option"
  | policy_entropy
  | epoch_info int
  | agent_save string bool
  | learn int int bool
  | input_wait

text \<open>
  What the driver cannot decide is a parameter: whether a call raises (given the calls made
  so far, the last being the call in question), the shapes an environment declares, and
  whether CUDA is available.
\<close>

record world =
  raises :: "event list \<Rightarrow> bool"
  observation_shape :: "env_class \<Rightarrow> nat list"
  action_shape :: "env_class \<Rightarrow> nat list"
  cuda :: bool

text \<open>A computation takes the calls made so far and returns them extended, with its result.\<close>

type_synonym 'a run = "event list \<Rightarrow> event list \<times> (error + 'a)"

definition return :: "'a \<Rightarrow> 'a run" where
  "return x tr = (tr, Inr x)"

definition raise :: "error \<Rightarrow> 'a run" where
  "raise e tr = (tr, Inl e)"

definition bind :: "'a run \<Rightarrow> ('a \<Rightarrow> 'b run) \<Rightarrow> 'b run" where
  "bind m k tr = (case m tr of (tr', Inl e) \<Rightarrow> (tr', Inl e) | (tr', Inr x) \<Rightarrow> k x tr')"

definition call :: "world \<Rightarrow> event \<Rightarrow> unit run" where
  "call w e tr =
     (if raises w (tr @ [e]) then (tr @ [e], Inl ExternalFailure) else (tr @ [e], Inr ()))"

fun calls :: "world \<Rightarrow> event list \<Rightarrow> unit run" where
  "calls w [] = return ()"
| "calls w (e # es) = bind (call w e) (\<lambda>_. calls w es)"

text \<open>Python's \<open>shape[0]\<close> on a tuple.\<close>

definition index0 :: "nat list \<Rightarrow> nat run" where
  "index0 s = (case s of [] \<Rightarrow> raise IndexError | x # _ \<Rightarrow> return x)"

definition horizon :: nat where
  "horizon = 120"

definition gamma :: real where
  "gamma = 99 / 100"

text \<open>The body of the epoch loop, for epoch index \<open>n\<close>.\<close>

definition epoch :: "world \<Rightarrow> int \<Rightarrow> int \<Rightarrow> nat \<Rightarrow> unit run" where
  "epoch w n_steps_arg n_steps_test n =
     calls w [learn n_steps_arg 1 True,
              evaluate (n_steps n_steps_test) False True,
              parse_dataset,
              compute_J (Some gamma),
              compute_J None,
              policy_entropy,
              epoch_info (int n + 1)]"

fun epochs :: "world \<Rightarrow> int \<Rightarrow> int \<Rightarrow> nat list \<Rightarrow> unit run" where
  "epochs w n_steps_arg n_steps_test [] = return ()"
| "epochs w n_steps_arg n_steps_test (n # ns) =
     bind (epoch w n_steps_arg n_steps_test n) (\<lambda>_. epochs w n_steps_arg n_steps_test ns)"

definition select_mdp :: "world \<Rightarrow> string \<Rightarrow> env_class run" where
  "select_mdp w env_type =
     (if env_type = ''hit'' then
        bind (call w (mdp_new AirHockeyHit 4 gamma horizon)) (\<lambda>_. return AirHockeyHit)
      else if env_type = ''defend'' then
        bind (call w (mdp_new AirHockeyDefend 4 gamma horizon)) (\<lambda>_. return AirHockeyDefend)
      else raise NotImplementedError)"

text \<open>
  \<open>experiment(alg, env_type, n_epochs, n_steps, n_steps_test, agent_path)\<close>. The algorithm
  class is known by its name; \<open>trange(n_epochs)\<close> runs over \<open>0, ..., n_epochs - 1\<close> and is
  empty for \<open>n_epochs \<le> 0\<close>.
\<close>

definition "experiment" ::
  "world \<Rightarrow> string \<Rightarrow> string \<Rightarrow> int \<Rightarrow> int \<Rightarrow> int \<Rightarrow> string option \<Rightarrow> unit run" where
  "experiment w alg env_type n_epochs n_steps_arg n_steps_test agent_path =
     bind (calls w [np_random_seed, Logger_new alg, strong_line,
                    info (''Experiment Algorithm: '' @ alg)]) (\<lambda>_.
     bind (select_mdp w env_type) (\<lambda>mdp.
     bind (call w cuda_is_available) (\<lambda>_.
       let actor_input_shape = observation_shape w mdp;
           actor_mu = \<lparr>network = ActorNetwork, n_features = 128,
                        input_shape = actor_input_shape,
                        output_shape = action_shape w mdp, use_cuda = cuda w\<rparr>;
           actor_sigma = \<lparr>network = ActorNetwork, n_features = 128,
                           input_shape = actor_input_shape,
                           output_shape = action_shape w mdp, use_cuda = cuda w\<rparr>;
           actor_opt = \<lparr>opt_class = Adam, lr = 5 / 10000\<rparr>
       in
     bind (index0 actor_input_shape) (\<lambda>obs0.
     bind (index0 (action_shape w mdp)) (\<lambda>act0.
       let critic_input_shape = [obs0 + act0];
           critic = \<lparr>network = CriticNetwork, n_features = 128,
                      input_shape = critic_input_shape, output_shape = [1],
                      use_cuda = cuda w,
                      optimizer = \<lparr>opt_class = Adam, lr = 5 / 10000\<rparr>, loss = mse_loss\<rparr>
       in
     bind (call w (alg_new alg
             \<lparr>mdp_info = mdp, actor_mu_params = actor_mu, actor_sigma_params = actor_sigma,
              actor_optimizer = actor_opt, critic_params = critic, batch_size = 64,
              initial_replay_size = 5000, max_replay_size = 200000,
              warmup_transitions = 10000, tau = 1 / 1000, lr_alpha = 3 / 10000\<rparr>)) (\<lambda>_.
     (case agent_path of
        Some path \<Rightarrow>
          calls w [agent_load path, Core_new (Loaded path), evaluate (n_episodes 20) True False]
      | None \<Rightarrow>
          bind (calls w [Core_new Constructed,
                         evaluate (n_steps n_steps_test) True False,
                         parse_dataset,
                         compute_J (Some gamma),
                         compute_J None,
                         policy_entropy,
                         epoch_info 0,
                         agent_save (''agents/air_hockey_'' @ env_type @ ''_initial.msh'') True,
                         learn 5000 5000 True]) (\<lambda>_.
          bind (epochs w n_steps_arg n_steps_test [0..<nat n_epochs]) (\<lambda>_.
          calls w [agent_save (''agents/air_hockey_'' @ env_type @ ''.msh'') True,
                   info ''Press a button to visualize'',
                   input_wait,
                   evaluate (n_episodes 5) True False])))))))))"

text \<open>The script's entry point.\<close>

definition main :: "world \<Rightarrow> unit run" where
  "main w = experiment w ''SAC'' ''defend'' 100 4000 3000 (Some ''agents/air_hockey_defend.msh'')"

section \<open>The driver as a script of calls\<close>

text \<open>
  \<open>exec w es r\<close> makes the calls \<open>es\<close> in order, stops with \<open>ExternalFailure\<close> at the first
  one that raises, and otherwise ends with \<open>r\<close>. The driver is shown below to be \<open>exec\<close> of
  the list \<open>script\<close> with the result \<open>outcome\<close>.
\<close>

fun exec :: "world \<Rightarrow> event list \<Rightarrow> error + 'a \<Rightarrow> 'a run" where
  "exec w [] r tr = (tr, r)"
| "exec w (e # es) r tr =
     (if raises w (tr @ [e]) then (tr @ [e], Inl ExternalFailure) else exec w es r (tr @ [e]))"

definition the_mdp :: "string \<Rightarrow> env_class" where
  "the_mdp env_type = (if env_type = ''hit'' then AirHockeyHit else AirHockeyDefend)"

definition the_args :: "world \<Rightarrow> env_class \<Rightarrow> agent_args" where
  "the_args w mdp =
     \<lparr>mdp_info = mdp,
      actor_mu_params =
        \<lparr>network = ActorNetwork, n_features = 128, input_shape = observation_shape w mdp,
         output_shape = action_shape w mdp, use_cuda = cuda w\<rparr>,
      actor_sigma_params =
        \<lparr>network = ActorNetwork, n_features = 128, input_shape = observation_shape w mdp,
         output_shape = action_shape w mdp, use_cuda = cuda w\<rparr>,
      actor_optimizer = \<lparr>opt_class = Adam, lr = 5 / 10000\<rparr>,
      critic_params =
        \<lparr>network = CriticNetwork, n_features = 128,
         input_shape = [hd (observation_shape w mdp) + hd (action_shape w mdp)],
         output_shape = [1], use_cuda = cuda w,
         optimizer = \<lparr>opt_class = Adam, lr = 5 / 10000\<rparr>, loss = mse_loss\<rparr>,
      batch_size = 64, initial_replay_size = 5000, max_replay_size = 200000,
      warmup_transitions = 10000, tau = 1 / 1000, lr_alpha = 3 / 10000\<rparr>"

definition header :: "string \<Rightarrow> event list" where
  "header alg =
     [np_random_seed, Logger_new alg, strong_line, info (''Experiment Algorithm: '' @ alg)]"

definition baseline :: "int \<Rightarrow> event list" where
  "baseline n_steps_test =
     [Core_new Constructed, evaluate (n_steps n_steps_test) True False, parse_dataset,
      compute_J (Some gamma), compute_J None, policy_entropy, epoch_info 0]"

definition epoch_events :: "int \<Rightarrow> int \<Rightarrow> nat \<Rightarrow> event list" where
  "epoch_events n_steps_arg n_steps_test n =
     [learn n_steps_arg 1 True, evaluate (n_steps n_steps_test) False True, parse_dataset,
      compute_J (Some gamma), compute_J None, policy_entropy, epoch_info (int n + 1)]"

definition initial_path :: "string \<Rightarrow> string" where
  "initial_path env_type = ''agents/air_hockey_'' @ env_type @ ''_initial.msh''"

definition final_path :: "string \<Rightarrow> string" where
  "final_path env_type = ''agents/air_hockey_'' @ env_type @ ''.msh''"

definition finish :: "string \<Rightarrow> event list" where
  "finish env_type =
     [agent_save (final_path env_type) True, info ''Press a button to visualize'', input_wait,
      evaluate (n_episodes 5) True False]"

definition after_agent :: "string \<Rightarrow> int \<Rightarrow> int \<Rightarrow> int \<Rightarrow> string option \<Rightarrow> event list" where
  "after_agent env_type n_epochs n_steps_arg n_steps_test agent_path =
     (case agent_path of
        Some path \<Rightarrow>
          [agent_load path, Core_new (Loaded path), evaluate (n_episodes 20) True False]
      | None \<Rightarrow>
          baseline n_steps_test @
          [agent_save (initial_path env_type) True, learn 5000 5000 True] @
          concat (map (epoch_events n_steps_arg n_steps_test) [0..<nat n_epochs]) @
          finish env_type)"

definition known_env :: "string \<Rightarrow> bool" where
  "known_env env_type = (env_type = ''hit'' \<or> env_type = ''defend'')"

definition shapes_ok :: "world \<Rightarrow> env_class \<Rightarrow> bool" where
  "shapes_ok w mdp = (observation_shape w mdp \<noteq> [] \<and> action_shape w mdp \<noteq> [])"

definition script ::
  "world \<Rightarrow> string \<Rightarrow> string \<Rightarrow> int \<Rightarrow> int \<Rightarrow> int \<Rightarrow> string option \<Rightarrow> event list" where
  "script w alg env_type n_epochs n_steps_arg n_steps_test agent_path =
     header alg @
     (if known_env env_type then
        [mdp_new (the_mdp env_type) 4 gamma horizon, cuda_is_available] @
        (if shapes_ok w (the_mdp env_type) then
           alg_new alg (the_args w (the_mdp env_type)) #
           after_agent env_type n_epochs n_steps_arg n_steps_test agent_path
         else [])
      else [])"

definition outcome :: "world \<Rightarrow> string \<Rightarrow> error + unit" where
  "outcome w env_type =
     (if known_env env_type then
        (if shapes_ok w (the_mdp env_type) then Inr () else Inl IndexError)
      else Inl NotImplementedError)"

definition before_save :: "world \<Rightarrow> string \<Rightarrow> string \<Rightarrow> int \<Rightarrow> event list" where
  "before_save w alg env_type b =
     header alg @
     [mdp_new (the_mdp env_type) 4 gamma horizon, cuda_is_available,
      alg_new alg (the_args w (the_mdp env_type))] @ baseline b"

section \<open>Notions used in the statements\<close>

text \<open>
  \<open>samples g k n\<close> are the \<open>n\<close> samples the generator \<open>g\<close> delivers from position \<open>k\<close> on;
  \<open>scaled b us\<close> maps samples from \<open>[0, 1)\<close> to \<open>[-b, b)\<close>.
\<close>

definition samples :: "rng \<Rightarrow> nat \<Rightarrow> nat \<Rightarrow> real list" where
  "samples g k n = map (\<lambda>i. g (k + i)) [0..<n]"

definition scaled :: "real \<Rightarrow> real list \<Rightarrow> real list" where
  "scaled b us = map (\<lambda>u. b * (2 * u - 1)) us"

text \<open>
  The network the constructors build from the generator \<open>g\<close>, in closed form: the three
  \<open>nn.Linear\<close> constructors consume samples first (weight, then bias, layer by layer), the
  three \<open>xavier_uniform_\<close> calls after them.
\<close>

definition built :: "nat \<Rightarrow> nat \<Rightarrow> nat \<Rightarrow> rng \<Rightarrow> net" where
  "built n_in nf n_out g =
     (let c1 = nf * n_in + nf; c2 = nf * nf + nf; c3 = n_out * nf + n_out;
          c = c1 + c2 + c3
      in \<lparr>h1 = \<lparr>weight = Tensor [nf, n_in]
                   (scaled (xavier_bound (calculate_gain relu_gain) n_in nf)
                      (samples g c (nf * n_in))),
                 bias = Tensor [nf]
                   (scaled (1 / sqrt (real n_in)) (samples g (nf * n_in) nf))\<rparr>,
           h2 = \<lparr>weight = Tensor [nf, nf]
                   (scaled (xavier_bound (calculate_gain relu_gain) nf nf)
                      (samples g (c + nf * n_in) (nf * nf))),
                 bias = Tensor [nf]
                   (scaled (1 / sqrt (real nf)) (samples g (c1 + nf * nf) nf))\<rparr>,
           h3 = \<lparr>weight = Tensor [n_out, nf]
                   (scaled (xavier_bound (calculate_gain linear_gain) nf n_out)
                      (samples g (c + nf * n_in + nf * nf) (n_out * nf))),
                 bias = Tensor [n_out]
                   (scaled (1 / sqrt (real nf)) (samples g (c1 + c2 + n_out * nf) n_out))\<rparr>\<rparr>)"

text \<open>Every element of the tensor is at most \<open>b\<close> in absolute value.\<close>

definition bounded_by :: "real \<Rightarrow> tensor \<Rightarrow> bool" where
  "bounded_by b t = (\<forall>v \<in> set (data t). \<bar>v\<bar> \<le> b)"

text \<open>
  Reordering the features of a batch: in \<open>permute_cols p t\<close>, feature \<open>j\<close> of every row is
  feature \<open>p ! j\<close> of the same row of \<open>t\<close>. The list \<open>p\<close> is a permutation of the \<open>n\<close> feature
  indices when it holds each of \<open>0, ..., n - 1\<close> once.
\<close>

definition pick :: "nat list \<Rightarrow> 'a list \<Rightarrow> 'a list" where
  "pick p r = map (\<lambda>j. r ! j) p"

definition permute_cols :: "nat list \<Rightarrow> tensor \<Rightarrow> tensor" where
  "permute_cols p t =
     Tensor (shape t) (concat (map (pick p) (rows (hd (shape t)) (shape t ! 1) (data t))))"

definition permutation_of :: "nat list \<Rightarrow> nat \<Rightarrow> bool" where
  "permutation_of p n = (mset p = mset [0..<n])"

definition is_learn :: "event \<Rightarrow> bool" where
  "is_learn e = (case e of learn _ _ _ \<Rightarrow> True | _ \<Rightarrow> False)"

definition is_save :: "event \<Rightarrow> bool" where
  "is_save e = (case e of agent_save _ _ \<Rightarrow> True | _ \<Rightarrow> False)"

definition is_epoch_info :: "event \<Rightarrow> bool" where
  "is_epoch_info e = (case e of epoch_info _ \<Rightarrow> True | _ \<Rightarrow> False)"

definition is_construction :: "event \<Rightarrow> bool" where
  "is_construction e =
     (case e of mdp_new _ _ _ _ \<Rightarrow> True | alg_new _ _ \<Rightarrow> True | Core_new _ \<Rightarrow> True
      | agent_load _ \<Rightarrow> True | _ \<Rightarrow> False)"

definition never_raises :: "world \<Rightarrow> bool" where
  "never_raises w = (\<forall>tr. \<not> raises w tr)"

section \<open>Example inputs\<close>

definition w0 :: world where
  "w0 = \<lparr>raises = (\<lambda>_. False), observation_shape = (\<lambda>_. [3]), action_shape = (\<lambda>_. [2]),
         cuda = False\<rparr>"

definition lin :: "nat \<Rightarrow> nat \<Rightarrow> real list \<Rightarrow> real list \<Rightarrow> Linear" where
  "lin n_in n_out ws bs = \<lparr>weight = Tensor [n_out, n_in] ws, bias = Tensor [n_out] bs\<rparr>"

text \<open>Networks with one feature and one output, for 1, 2 and 3 inputs.\<close>

definition net11 :: net where
  "net11 = \<lparr>h1 = lin 1 1 [1] [0], h2 = lin 1 1 [1] [0], h3 = lin 1 1 [1] [0]\<rparr>"

definition net21 :: net where
  "net21 = \<lparr>h1 = lin 2 1 [1, 0] [0], h2 = lin 1 1 [1] [0], h3 = lin 1 1 [1] [0]\<rparr>"

definition net31 :: net where
  "net31 = \<lparr>h1 = lin 3 1 [1, 0, 0] [0], h2 = lin 1 1 [1] [0], h3 = lin 1 1 [1] [0]\<rparr>"

definition net31_mid :: net where
  "net31_mid = \<lparr>h1 = lin 3 1 [0, 1, 0] [0], h2 = lin 1 1 [1] [0], h3 = lin 1 1 [1] [0]\<rparr>"

definition state_ex :: tensor where
  "state_ex = Tensor [2, 2] [1, 2, 3, 4]"

definition state3_ex :: tensor where
  "state3_ex = Tensor [2, 1, 2] [1, 2, 3, 4]"

definition action_ex :: tensor where
  "action_ex = Tensor [2, 1] [5, 6]"

definition g0 :: rng where
  "g0 = (\<lambda>i. 1 / (real i + 2))"

text \<open>The bias vectors of a constructed network, or the exception.\<close>

definition biases_of :: "error + net \<times> rng \<Rightarrow> error + real list list" where
  "biases_of r = map_sum id (\<lambda>(n, g). map (\<lambda>l. data (bias l)) [h1 n, h2 n, h3 n]) r"

section \<open>Lemmas on tensors and layers\<close>

lemma length_rows [simp]: "length (rows k n xs) = k"
  by (simp add: rows_def)

lemma numel_append: "numel (s @ [n]) = numel s * n"
  by (simp add: numel_def)

lemma length_concat_const:
  assumes "\<And>x. x \<in> set xs \<Longrightarrow> length (f x) = c"
  shows "length (concat (map f xs)) = length xs * c"
  using assms by (induction xs) auto

lemma Linear_forward_ok:
  assumes "wf_Linear n_in n_out l" and "shape x = s @ [n_in]"
  shows "\<exists>t. Linear_forward l x = Inr t \<and> shape t = s @ [n_out] \<and> wf_tensor t"
proof -
  from assms(1) have w: "shape (weight l) = [n_out, n_in]" and b: "shape (bias l) = [n_out]"
    and lb: "length (data (bias l)) = n_out"
    by (simp_all add: wf_Linear_def wf_tensor_def numel_def)
  let ?d = "concat (map (\<lambda>r. map2 (\<lambda>w b. dot w r + b)
                                        (rows n_out n_in (data (weight l))) (data (bias l)))
                            (rows (numel s) n_in (data x)))"
  have "Linear_forward l x = Inr (Tensor (s @ [n_out]) ?d)"
    using assms(2) w b by (simp add: Linear_forward_def)
  moreover have "length ?d = numel s * n_out"
    by (subst length_concat_const [where c = n_out]) (simp_all add: lb)
  ultimately show ?thesis
    by (simp add: wf_tensor_def numel_append)
qed

lemma relu_shape [simp]: "shape (relu t) = shape t"
  by (simp add: relu_def)

lemma relu_wf [simp]: "wf_tensor (relu t) = wf_tensor t"
  by (simp add: relu_def wf_tensor_def)

lemma length_block:
  assumes "length xs = k * n" and "i < k"
  shows "length (take n (drop (i * n) xs)) = n"
proof -
  have "Suc i * n \<le> k * n" using assms(2) by (intro mult_le_mono1) simp
  then show ?thesis using assms(1) by simp
qed

lemma cat1_ok:
  assumes "shape a = [k, m]" and "shape b = [k, n]" and "wf_tensor a" and "wf_tensor b"
  shows "\<exists>t. cat1 a b = Inr t \<and> shape t = [k, m + n] \<and> wf_tensor t"
proof -
  let ?d = "concat (map (\<lambda>i. take m (drop (i * m) (data a)) @ take n (drop (i * n) (data b))) [0..<k])"
  have la: "length (data a) = k * m" and lb: "length (data b) = k * n"
    using assms by (simp_all add: wf_tensor_def numel_def)
  have "cat1 a b = Inr (Tensor [k, m + n] ?d)"
    using assms(1,2) by (simp add: cat1_def numel_def)
  moreover have "length ?d = k * (m + n)"
  proof (subst length_concat_const [where c = "m + n"])
    fix i assume "i \<in> set [0..<k]"
    then have "i < k" by simp
    then show "length (take m (drop (i * m) (data a)) @ take n (drop (i * n) (data b))) = m + n"
      using length_block [OF la] length_block [OF lb] by (simp only: length_append)
  qed simp
  ultimately show ?thesis
    by (simp add: wf_tensor_def numel_def)
qed


lemma squeeze_shape [simp]: "shape (squeeze t) = filter (\<lambda>n. n \<noteq> 1) (shape t)"
  by (simp add: squeeze_def)

lemma squeeze_col_wf: "shape t = [k, 1] \<Longrightarrow> wf_tensor t \<Longrightarrow> wf_tensor (squeeze t)"
  by (auto simp add: squeeze_def wf_tensor_def numel_def)

lemma CriticNetwork_forward_ok:
  assumes net: "wf_net (obs_dim + action_dim) nf 1 critic"
    and s: "shape state = [bs, obs_dim]" "wf_tensor state"
    and a: "shape action = [bs, action_dim]" "wf_tensor action"
  shows "\<exists>t. CriticNetwork_forward critic state action = Inr t \<and>
             shape t = (if bs = 1 then [] else [bs]) \<and> wf_tensor t"
proof -
  from net have l1: "wf_Linear (obs_dim + action_dim) nf (h1 critic)"
    and l2: "wf_Linear nf nf (h2 critic)"
    and l3: "wf_Linear nf 1 (h3 critic)"
    by (simp_all add: wf_net_def)
  obtain sa where sa: "cat1 state action = Inr sa" "shape sa = [bs, obs_dim + action_dim]"
    using cat1_ok [OF s(1) a(1) s(2) a(2)] by blast
  obtain a1 where a1: "Linear_forward (h1 critic) sa = Inr a1" "shape a1 = [bs, nf]"
    using Linear_forward_ok [OF l1, of sa "[bs]"] sa(2) by auto
  obtain a2 where a2: "Linear_forward (h2 critic) (relu a1) = Inr a2" "shape a2 = [bs, nf]"
    using Linear_forward_ok [OF l2, of "relu a1" "[bs]"] a1(2) by auto
  obtain q where q: "Linear_forward (h3 critic) (relu a2) = Inr q" "shape q = [bs, 1]" "wf_tensor q"
    using Linear_forward_ok [OF l3, of "relu a2" "[bs]"] a2(2) by auto
  have "CriticNetwork_forward critic state action = Inr (squeeze q)"
    by (simp add: CriticNetwork_forward_def float_cast_def sa(1) a1(1) a2(1) q(1))
  then show ?thesis
    using q(2) squeeze_col_wf [OF q(2,3)] by simp
qed

lemma squeeze_dim_mid:
  "shape t = [k, 1, n] \<Longrightarrow> squeeze_dim 1 t = Inr (Tensor [k, n] (data t))"
  by (simp add: squeeze_dim_def)

lemma squeeze_dim_keep:
  "shape t = [k, n] \<Longrightarrow> n \<noteq> 1 \<Longrightarrow> squeeze_dim 1 t = Inr t"
  by (simp add: squeeze_dim_def)

lemma squeeze_dim_last:
  "shape t = [k, 1] \<Longrightarrow> squeeze_dim 1 t = Inr (Tensor [k] (data t))"
  by (simp add: squeeze_dim_def)

lemma mlp_ok:
  assumes net: "wf_net n_in nf n_out actor"
    and s: "shape s = pre @ [n_in]"
  shows "\<exists>t. (case Linear_forward (h1 actor) s of Inl e \<Rightarrow> Inl e | Inr a1 \<Rightarrow>
              (case Linear_forward (h2 actor) (relu a1) of Inl e \<Rightarrow> Inl e
               | Inr a2 \<Rightarrow> Linear_forward (h3 actor) (relu a2))) = Inr t \<and>
             shape t = pre @ [n_out] \<and> wf_tensor t"
proof -
  from net have l1: "wf_Linear n_in nf (h1 actor)"
    and l2: "wf_Linear nf nf (h2 actor)"
    and l3: "wf_Linear nf n_out (h3 actor)"
    by (simp_all add: wf_net_def)
  obtain a1 where a1: "Linear_forward (h1 actor) s = Inr a1" "shape a1 = pre @ [nf]"
    using Linear_forward_ok [OF l1 s] by auto
  obtain a2 where a2: "Linear_forward (h2 actor) (relu a1) = Inr a2" "shape a2 = pre @ [nf]"
    using Linear_forward_ok [OF l2, of "relu a1" pre] a1(2) by auto
  obtain q where q: "Linear_forward (h3 actor) (relu a2) = Inr q" "shape q = pre @ [n_out]" "wf_tensor q"
    using Linear_forward_ok [OF l3, of "relu a2" pre] a2(2) by auto
  show ?thesis by (simp add: a1(1) a2(1) q)
qed

lemma Linear_forward_mismatch:
  assumes "wf_Linear n_in n_out l" and "shape x = s @ [k]" and "k \<noteq> n_in"
  shows "Linear_forward l x = Inl RuntimeError"
  using assms by (simp add: Linear_forward_def wf_Linear_def)

lemma upt_0_2: "[0..<2] = [0, 1]"
  by (simp add: numeral_2_eq_2)

lemmas eval_defs = CriticNetwork_forward_def ActorNetwork_forward_def cat1_def float_cast_def
  Linear_forward_def squeeze_dim_def squeeze_def relu_def rows_def dot_def numel_def lin_def


section \<open>Shapes of the outputs\<close>

text \<open>
  Claim C1, amended. For every valid tuple (batch size, observation width, action width,
  feature width, all positive): \<open>ActorNetwork.forward\<close> on a batch of shape
  \<open>(batch, 1, obs)\<close> returns shape \<open>(batch, action)\<close>; on a batch of shape \<open>(batch, obs)\<close> it
  returns shape \<open>(batch, action)\<close> when \<open>obs \<noteq> 1\<close>, whereas for \<open>obs = 1\<close> the squeeze of
  dimension 1 removes the feature dimension and the call returns shape \<open>(action,)\<close> for a
  batch of one and raises otherwise. \<open>CriticNetwork.forward\<close> (output width 1) returns
  shape \<open>(batch,)\<close> when the batch size is not 1 and the 0-d shape \<open>()\<close> when it is 1, since
  \<open>torch.squeeze\<close> without a dimension removes every singleton dimension.
\<close>
theorem forward_output_shapes:
  assumes "0 < bs" and "0 < obs_dim" and "0 < action_dim" and "0 < nf"
    and actor: "wf_net obs_dim nf action_dim actor"
    and critic: "wf_net (obs_dim + action_dim) nf 1 critic"
    and state: "wf_tensor state" "shape state = [bs, obs_dim]"
    and state3: "wf_tensor state3" "shape state3 = [bs, 1, obs_dim]"
    and action: "wf_tensor action" "shape action = [bs, action_dim]"
  shows "(\<exists>t. ActorNetwork_forward actor state3 = Inr t \<and> wf_tensor t \<and>
              shape t = [bs, action_dim]) \<and>
         (obs_dim \<noteq> 1 \<longrightarrow>
            (\<exists>t. ActorNetwork_forward actor state = Inr t \<and> wf_tensor t \<and>
                 shape t = [bs, action_dim])) \<and>
         (obs_dim = 1 \<and> bs = 1 \<longrightarrow>
            (\<exists>t. ActorNetwork_forward actor state = Inr t \<and> wf_tensor t \<and>
                 shape t = [action_dim])) \<and>
         (obs_dim = 1 \<and> bs \<noteq> 1 \<longrightarrow> ActorNetwork_forward actor state = Inl RuntimeError) \<and>
         (\<exists>t. CriticNetwork_forward critic state action = Inr t \<and> wf_tensor t \<and>
              shape t = (if bs = 1 then [] else [bs]))"
proof (intro conjI impI)
  show "\<exists>t. ActorNetwork_forward actor state3 = Inr t \<and> wf_tensor t \<and> shape t = [bs, action_dim]"
    unfolding ActorNetwork_forward_def squeeze_dim_mid [OF state3(2)] float_cast_def
    using mlp_ok [OF actor, of "Tensor [bs, obs_dim] (data state3)" "[bs]"] by auto
  show "\<exists>t. ActorNetwork_forward actor state = Inr t \<and> wf_tensor t \<and> shape t = [bs, action_dim]"
    if "obs_dim \<noteq> 1"
    unfolding ActorNetwork_forward_def squeeze_dim_keep [OF state(2) that] float_cast_def
    using mlp_ok [OF actor, of state "[bs]"] state(2) by auto
  show "\<exists>t. ActorNetwork_forward actor state = Inr t \<and> wf_tensor t \<and> shape t = [action_dim]"
    if "obs_dim = 1 \<and> bs = 1"
  proof -
    from that state(2) have s: "shape state = [bs, 1]" by simp
    show ?thesis
      unfolding ActorNetwork_forward_def squeeze_dim_last [OF s] float_cast_def
      using mlp_ok [OF actor, of "Tensor [bs] (data state)" "[]"] that by auto
  qed
  show "ActorNetwork_forward actor state = Inl RuntimeError" if "obs_dim = 1 \<and> bs \<noteq> 1"
  proof -
    from actor have "wf_Linear obs_dim nf (h1 actor)" by (simp add: wf_net_def)
    from Linear_forward_mismatch [OF this, of "Tensor [bs] (data state)" "[]" bs] that
    have "Linear_forward (h1 actor) (Tensor [bs] (data state)) = Inl RuntimeError" by simp
    moreover from that state(2) have s: "shape state = [bs, 1]" by simp
    ultimately show ?thesis
      unfolding ActorNetwork_forward_def squeeze_dim_last [OF s] float_cast_def by simp
  qed
  show "\<exists>t. CriticNetwork_forward critic state action = Inr t \<and> wf_tensor t \<and>
              shape t = (if bs = 1 then [] else [bs])"
    using CriticNetwork_forward_ok [OF critic state(2,1) action(2,1)] by blast
qed

theorem forward_output_shapes_counterexample:
  "CriticNetwork_forward net21 (Tensor [1, 1] [5]) (Tensor [1, 1] [7]) = Inr (Tensor [] [5]) \<and>
   ActorNetwork_forward net11 (Tensor [2, 1] [5, 7]) = Inl RuntimeError"
  by (simp add: eval_defs net21_def net11_def)

lemma wf_net21: "wf_net 2 1 1 net21"
  by (simp add: wf_net_def wf_Linear_def wf_tensor_def net21_def lin_def numel_def)

lemma wf_net31: "wf_net 3 1 1 net31"
  by (simp add: wf_net_def wf_Linear_def wf_tensor_def net31_def lin_def numel_def)

theorem forward_output_shapes_witness:
  "wf_net 2 1 1 net21 \<and> wf_net (2 + 1) 1 1 net31 \<and>
   wf_tensor state_ex \<and> shape state_ex = [2, 2] \<and>
   wf_tensor state3_ex \<and> shape state3_ex = [2, 1, 2] \<and>
   wf_tensor action_ex \<and> shape action_ex = [2, 1] \<and>
   (\<exists>t. ActorNetwork_forward net21 state3_ex = Inr t \<and> wf_tensor t \<and> shape t = [2, 1]) \<and>
   (\<exists>t. ActorNetwork_forward net21 state_ex = Inr t \<and> wf_tensor t \<and> shape t = [2, 1]) \<and>
   (\<exists>t. CriticNetwork_forward net31 state_ex action_ex = Inr t \<and> wf_tensor t \<and> shape t = [2])"
proof -
  have h: "wf_tensor state_ex" "shape state_ex = [2, 2]"
    "wf_tensor state3_ex" "shape state3_ex = [2, 1, 2]"
    "wf_tensor action_ex" "shape action_ex = [2, 1]"
    by (simp_all add: wf_tensor_def numel_def state_ex_def state3_ex_def action_ex_def)
  have n: "wf_net (2 + 1) 1 1 net31" using wf_net31 by simp
  from forward_output_shapes [of 2 2 1 1 net21 net31 state_ex state3_ex action_ex,
      OF _ _ _ _ wf_net21 n h]
  show ?thesis using wf_net21 n h by simp
qed

section \<open>Determinism\<close>






text \<open>
  By contrast the constructors do read the generator: from another generator state they
  build other parameters.
\<close>

lemma init_reads_generator:
  "biases_of (CriticNetwork_init [1] [1] 1 (advance g0 1)) =
     Inr [[- (1 / 2)], [- (2 / 3)], [- (3 / 4)]]"
  by (simp add: biases_of_def CriticNetwork_init_def Linear_init_def uniform_fill_def
      xavier_uniform_def numel_def g0_def advance_def)

section \<open>Initial parameters\<close>

lemma advance_advance: "advance (advance g a) b = advance g (a + b)"
  by (rule ext) (simp add: advance_def ac_simps)

lemma samples_advance: "samples (advance g k) j n = samples g (k + j) n"
  by (simp add: samples_def advance_def ac_simps)

lemma uniform_fill_sym:
  "uniform_fill sh (- b) b g = (Tensor sh (scaled b (samples g 0 (numel sh))), advance g (numel sh))"
  by (simp add: uniform_fill_def scaled_def samples_def algebra_simps)

lemma Linear_init_eq:
  "0 < n_in \<Longrightarrow>
   Linear_init n_in n_out g =
     (\<lparr>weight = Tensor [n_out, n_in]
                 (scaled (kaiming_bound (sqrt 5) n_in) (samples g 0 (n_out * n_in))),
       bias = Tensor [n_out] (scaled (1 / sqrt (real n_in)) (samples g (n_out * n_in) n_out))\<rparr>,
      advance g (n_out * n_in + n_out))"
  by (simp add: Linear_init_def uniform_fill_sym numel_def samples_advance advance_advance)

lemma xavier_uniform_eq:
  "0 < fan_in + fan_out \<Longrightarrow>
   xavier_uniform (Tensor [fan_out, fan_in] d) gain g =
     Inr (Tensor [fan_out, fan_in]
            (scaled (xavier_bound gain fan_in fan_out) (samples g 0 (fan_out * fan_in))),
          advance g (fan_out * fan_in))"
  by (simp add: xavier_uniform_def uniform_fill_sym numel_def)

lemma CriticNetwork_init_eq:
  assumes "0 < n_in" and "0 < nf" and "0 < n_out"
    and "ishape \<noteq> []" and "last ishape = n_in" and "oshape \<noteq> []" and "hd oshape = n_out"
  shows "\<exists>g'. CriticNetwork_init ishape oshape nf g = Inr (built n_in nf n_out g, g')"
  using assms
  by (simp add: CriticNetwork_init_def Linear_init_eq xavier_uniform_eq samples_advance
      advance_advance built_def Let_def ac_simps)


lemma ActorNetwork_init_Critic: "ActorNetwork_init = CriticNetwork_init"
  by (intro ext) (simp add: ActorNetwork_init_def CriticNetwork_init_def)

lemma scaled_within:
  assumes "0 \<le> b" and "\<forall>i. 0 \<le> g i \<and> g i < 1"
  shows "bounded_by b (Tensor sh (scaled b (samples g k n)))"
proof -
  have "\<bar>b * (2 * g i - 1)\<bar> \<le> b" for i
  proof -
    from assms(2) have "\<bar>2 * g i - 1\<bar> \<le> 1"
      by (simp add: abs_le_iff) (metis less_eq_real_def mult_2 add_mono one_add_one
          mult_le_cancel_left_pos zero_less_numeral mult.right_neutral)
    then have "\<bar>b\<bar> * \<bar>2 * g i - 1\<bar> \<le> \<bar>b\<bar> * 1"
      by (intro mult_left_mono) simp_all
    with assms(1) show ?thesis by (simp add: abs_mult)
  qed
  then show ?thesis
    by (auto simp add: bounded_by_def scaled_def samples_def)
qed

lemma xavier_bound_nonneg: "0 \<le> gain \<Longrightarrow> 0 \<le> xavier_bound gain fan_in fan_out"
  by (simp add: xavier_bound_def)

lemma wf_scaled [simp]: "wf_tensor (Tensor sh (scaled b (samples g k n))) = (n = numel sh)"
  by (auto simp add: wf_tensor_def scaled_def samples_def)

lemma built_wf: "wf_net n_in nf n_out (built n_in nf n_out g)"
  by (simp add: wf_net_def wf_Linear_def built_def Let_def numel_def)

text \<open>
  Claim C2, amended. At construction of either network (positive widths), every layer's
  weight matrix is refilled by \<open>xavier_uniform_\<close>: its entries are fresh uniform samples
  scaled to \<open>[-a, a)\<close> with \<open>a = gain * sqrt (6 / (fan_in + fan_out))\<close>, the gain being that of
  \<open>relu\<close> for the two hidden layers and that of \<open>linear\<close> for the output layer. The bias
  vectors are not touched by the constructors: they keep the values \<open>nn.Linear\<close> gives
  them, fresh uniform samples scaled to \<open>[-1 / sqrt fan_in, 1 / sqrt fan_in)\<close>, and are not
  zero in general.
\<close>
theorem init_xavier_weights_default_biases:
  assumes "0 < n_in" and "0 < nf" and "0 < n_out"
    and "ishape \<noteq> []" and "last ishape = n_in" and "oshape \<noteq> []" and "hd oshape = n_out"
  shows "\<exists>net g'.
           CriticNetwork_init ishape oshape nf g = Inr (net, g') \<and>
           ActorNetwork_init ishape oshape nf g = Inr (net, g') \<and>
           wf_net n_in nf n_out net \<and>
           (\<exists>k. data (weight (h1 net)) =
                  scaled (xavier_bound (calculate_gain relu_gain) n_in nf) (samples g k (nf * n_in))) \<and>
           (\<exists>k. data (weight (h2 net)) =
                  scaled (xavier_bound (calculate_gain relu_gain) nf nf) (samples g k (nf * nf))) \<and>
           (\<exists>k. data (weight (h3 net)) =
                  scaled (xavier_bound (calculate_gain linear_gain) nf n_out) (samples g k (n_out * nf))) \<and>
           (\<exists>k. data (bias (h1 net)) = scaled (1 / sqrt (real n_in)) (samples g k nf)) \<and>
           (\<exists>k. data (bias (h2 net)) = scaled (1 / sqrt (real nf)) (samples g k nf)) \<and>
           (\<exists>k. data (bias (h3 net)) = scaled (1 / sqrt (real nf)) (samples g k n_out)) \<and>
           ((\<forall>i. 0 \<le> g i \<and> g i < 1) \<longrightarrow>
              bounded_by (xavier_bound (calculate_gain relu_gain) n_in nf) (weight (h1 net)) \<and>
              bounded_by (xavier_bound (calculate_gain relu_gain) nf nf) (weight (h2 net)) \<and>
              bounded_by (xavier_bound (calculate_gain linear_gain) nf n_out) (weight (h3 net)) \<and>
              bounded_by (1 / sqrt (real n_in)) (bias (h1 net)) \<and>
              bounded_by (1 / sqrt (real nf)) (bias (h2 net)) \<and>
              bounded_by (1 / sqrt (real nf)) (bias (h3 net)))"
proof -
  from CriticNetwork_init_eq [OF assms, of g] obtain g'
    where c: "CriticNetwork_init ishape oshape nf g = Inr (built n_in nf n_out g, g')" by blast
  let ?net = "built n_in nf n_out g"
  have "ActorNetwork_init ishape oshape nf g = Inr (?net, g')"
    using c by (simp add: ActorNetwork_init_Critic)
  moreover have "\<exists>k. data (weight (h1 ?net)) =
      scaled (xavier_bound (calculate_gain relu_gain) n_in nf) (samples g k (nf * n_in))"
    by (auto simp add: built_def Let_def)
  moreover have "\<exists>k. data (weight (h2 ?net)) =
      scaled (xavier_bound (calculate_gain relu_gain) nf nf) (samples g k (nf * nf))"
    by (auto simp add: built_def Let_def)
  moreover have "\<exists>k. data (weight (h3 ?net)) =
      scaled (xavier_bound (calculate_gain linear_gain) nf n_out) (samples g k (n_out * nf))"
    by (auto simp add: built_def Let_def)
  moreover have "\<exists>k. data (bias (h1 ?net)) = scaled (1 / sqrt (real n_in)) (samples g k nf)"
    by (auto simp add: built_def Let_def)
  moreover have "\<exists>k. data (bias (h2 ?net)) = scaled (1 / sqrt (real nf)) (samples g k nf)"
    by (auto simp add: built_def Let_def)
  moreover have "\<exists>k. data (bias (h3 ?net)) = scaled (1 / sqrt (real nf)) (samples g k n_out)"
    by (auto simp add: built_def Let_def)
  moreover have "bounded_by (xavier_bound (calculate_gain relu_gain) n_in nf) (weight (h1 ?net)) \<and>
              bounded_by (xavier_bound (calculate_gain relu_gain) nf nf) (weight (h2 ?net)) \<and>
              bounded_by (xavier_bound (calculate_gain linear_gain) nf n_out) (weight (h3 ?net)) \<and>
              bounded_by (1 / sqrt (real n_in)) (bias (h1 ?net)) \<and>
              bounded_by (1 / sqrt (real nf)) (bias (h2 ?net)) \<and>
              bounded_by (1 / sqrt (real nf)) (bias (h3 ?net))"
    if "\<forall>i. 0 \<le> g i \<and> g i < 1"
    using that by (simp add: built_def Let_def scaled_within xavier_bound_nonneg)
  ultimately show ?thesis
    using c built_wf by blast
qed

theorem init_biases_counterexample:
  "biases_of (CriticNetwork_init [1] [1] 1 g0) = Inr [[- (1 / 3)], [- (3 / 5)], [- (5 / 7)]] \<and>
   biases_of (ActorNetwork_init [1] [1] 1 g0) = Inr [[- (1 / 3)], [- (3 / 5)], [- (5 / 7)]]"
  by (simp add: biases_of_def CriticNetwork_init_def ActorNetwork_init_def Linear_init_def
      uniform_fill_def xavier_uniform_def numel_def g0_def advance_def)

theorem init_xavier_weights_default_biases_witness:
  "(0::nat) < 1 \<and> [1::nat] \<noteq> [] \<and> last [1::nat] = 1 \<and> hd [1::nat] = 1 \<and>
   (\<forall>i. 0 \<le> g0 i \<and> g0 i < 1) \<and>
   (\<exists>net g'.
           CriticNetwork_init [1] [1] 1 g0 = Inr (net, g') \<and>
           ActorNetwork_init [1] [1] 1 g0 = Inr (net, g') \<and>
           wf_net 1 1 1 net \<and>
           (\<exists>k. data (weight (h1 net)) =
                  scaled (xavier_bound (calculate_gain relu_gain) 1 1) (samples g0 k 1)) \<and>
           (\<exists>k. data (bias (h1 net)) = scaled 1 (samples g0 k 1)) \<and>
           bounded_by (xavier_bound (calculate_gain relu_gain) 1 1) (weight (h1 net)) \<and>
           bounded_by 1 (bias (h1 net)))"
proof -
  have g: "\<forall>i. 0 \<le> g0 i \<and> g0 i < 1" by (simp add: g0_def)
  from init_xavier_weights_default_biases [of 1 1 1 "[1]" "[1]" g0] g
  obtain net g' where "CriticNetwork_init [1] [1] 1 g0 = Inr (net, g')"
    "ActorNetwork_init [1] [1] 1 g0 = Inr (net, g')" "wf_net 1 1 1 net"
    "\<exists>k. data (weight (h1 net)) =
        scaled (xavier_bound (calculate_gain relu_gain) 1 1) (samples g0 k (1 * 1))"
    "\<exists>k. data (bias (h1 net)) = scaled (1 / sqrt (real 1)) (samples g0 k 1)"
    "bounded_by (xavier_bound (calculate_gain relu_gain) 1 1) (weight (h1 net))"
    "bounded_by (1 / sqrt (real 1)) (bias (h1 net))"
    by auto
  with g show ?thesis by auto
qed

lemma uniform_fill_shape:
  "uniform_fill sh lo hi g = (t, g') \<Longrightarrow> shape t = sh \<and> wf_tensor t"
  by (auto simp add: uniform_fill_def wf_tensor_def)

lemma Linear_init_wf: "Linear_init n_in n_out g = (l, g') \<Longrightarrow> wf_Linear n_in n_out l"
  by (auto simp add: Linear_init_def wf_Linear_def Let_def uniform_fill_def wf_tensor_def
      split: prod.splits)

lemma xavier_uniform_wf:
  "xavier_uniform w gain g = Inr (w', g') \<Longrightarrow> shape w' = shape w \<and> wf_tensor w'"
  by (auto simp add: xavier_uniform_def uniform_fill_def wf_tensor_def
      split: list.splits if_splits)

lemma wf_Linear_weight:
  "wf_Linear n_in n_out l \<Longrightarrow> shape w = shape (weight l) \<Longrightarrow> wf_tensor w \<Longrightarrow>
   wf_Linear n_in n_out (l\<lparr>weight := w\<rparr>)"
  by (simp add: wf_Linear_def)

lemma CriticNetwork_init_wf:
  assumes "CriticNetwork_init ishape oshape nf g = Inr (net, g')"
  shows "wf_net (last ishape) nf (hd oshape) net"
proof -
  obtain l1 g1 where l1: "Linear_init (last ishape) nf g = (l1, g1)" by (cases "Linear_init (last ishape) nf g")
  obtain l2 g2 where l2: "Linear_init nf nf g1 = (l2, g2)" by (cases "Linear_init nf nf g1")
  obtain l3 g3 where l3: "Linear_init nf (hd oshape) g2 = (l3, g3)" by (cases "Linear_init nf (hd oshape) g2")
  from assms l1 l2 l3 obtain w1 g4 w2 g5 w3 g6 where
    x1: "xavier_uniform (weight l1) (calculate_gain relu_gain) g3 = Inr (w1, g4)" and
    x2: "xavier_uniform (weight l2) (calculate_gain relu_gain) g4 = Inr (w2, g5)" and
    x3: "xavier_uniform (weight l3) (calculate_gain linear_gain) g5 = Inr (w3, g6)" and
    n: "net = \<lparr>h1 = l1\<lparr>weight := w1\<rparr>, h2 = l2\<lparr>weight := w2\<rparr>, h3 = l3\<lparr>weight := w3\<rparr>\<rparr>"
    by (auto simp add: CriticNetwork_init_def Let_def split: if_splits sum.splits prod.splits)
  show ?thesis
    unfolding n wf_net_def
    using Linear_init_wf [OF l1] Linear_init_wf [OF l2] Linear_init_wf [OF l3]
      xavier_uniform_wf [OF x1] xavier_uniform_wf [OF x2] xavier_uniform_wf [OF x3]
    by (simp add: wf_Linear_weight)
qed


section \<open>The driver is its script\<close>

lemma call_exec: "call w e = exec w [e] (Inr ())"
  by (rule ext) (simp add: call_def)

lemma return_exec: "return x = exec w [] (Inr x)"
  by (rule ext) (simp add: return_def)

lemma raise_exec: "raise e = exec w [] (Inl e)"
  by (rule ext) (simp add: raise_def)

lemma bind_exec_Inl: "bind (exec w es (Inl e)) k = exec w es (Inl e)"
proof (rule ext)
  fix tr show "bind (exec w es (Inl e)) k tr = exec w es (Inl e) tr"
    by (induction es arbitrary: tr) (simp_all add: bind_def)
qed

lemma bind_exec_Inr:
  assumes "k x = exec w fs r"
  shows "bind (exec w es (Inr x)) k = exec w (es @ fs) r"
proof (rule ext)
  fix tr show "bind (exec w es (Inr x)) k tr = exec w (es @ fs) r tr"
  proof (induction es arbitrary: tr)
    case Nil
    then show ?case by (simp add: bind_def assms)
  next
    case (Cons e es)
    then show ?case by (simp add: bind_def)
  qed
qed

lemma calls_exec: "calls w es = exec w es (Inr ())"
proof (induction es)
  case Nil
  show ?case by (simp add: return_exec [of _ w])
next
  case (Cons e es)
  show ?case
    using bind_exec_Inr [of "\<lambda>_. calls w es" "()" w es "Inr ()" "[e]"] Cons
    by (simp add: call_exec)
qed

lemma epochs_exec:
  "epochs w a b ns = exec w (concat (map (epoch_events a b) ns)) (Inr ())"
proof (induction ns)
  case Nil
  show ?case by (simp add: return_exec [of _ w])
next
  case (Cons n ns)
  have "epoch w a b n = exec w (epoch_events a b n) (Inr ())"
    by (simp add: epoch_def epoch_events_def calls_exec)
  then show ?case
    using bind_exec_Inr [of "\<lambda>_. epochs w a b ns" "()" w _ "Inr ()" "epoch_events a b n"] Cons
    by simp
qed

lemma select_mdp_exec:
  "select_mdp w env_type =
     (if known_env env_type
      then exec w [mdp_new (the_mdp env_type) 4 gamma horizon] (Inr (the_mdp env_type))
      else exec w [] (Inl NotImplementedError))"
  by (simp add: select_mdp_def known_env_def the_mdp_def call_exec raise_exec [of _ w]
      bind_exec_Inr [OF return_exec [of _ w], simplified])

lemma index0_exec:
  "index0 s = (if s = [] then exec w [] (Inl IndexError) else exec w [] (Inr (hd s)))"
  by (cases s) (simp_all add: index0_def raise_exec [of _ w] return_exec [of _ w])



lemma bind_exec:
  "bind (exec w es (Inr x)) (\<lambda>y. exec w (F y) (R y)) = exec w (es @ F x) (R x)"
  by (rule bind_exec_Inr) simp

lemma tail_exec:
  "(case agent_path of
      Some path \<Rightarrow>
        calls w [agent_load path, Core_new (Loaded path), evaluate (n_episodes 20) True False]
    | None \<Rightarrow>
        bind (calls w [Core_new Constructed,
                       evaluate (n_steps b) True False,
                       parse_dataset,
                       compute_J (Some gamma),
                       compute_J None,
                       policy_entropy,
                       epoch_info 0,
                       agent_save (''agents/air_hockey_'' @ env_type @ ''_initial.msh'') True,
                       learn 5000 5000 True]) (\<lambda>_.
        bind (epochs w a b [0..<nat n_epochs]) (\<lambda>_.
        calls w [agent_save (''agents/air_hockey_'' @ env_type @ ''.msh'') True,
                 info ''Press a button to visualize'',
                 input_wait,
                 evaluate (n_episodes 5) True False])))
   = exec w (after_agent env_type n_epochs a b agent_path) (Inr ())"
  by (cases agent_path)
     (simp_all add: after_agent_def calls_exec epochs_exec bind_exec baseline_def finish_def
        initial_path_def final_path_def)


lemma if_exec:
  "(if c then exec w A r1 else exec w B r2) = exec w (if c then A else B) (if c then r1 else r2)"
  by simp

lemma bind_exec_if:
  "bind (exec w es (if c then Inl e else Inr x)) (\<lambda>y. exec w (F y) (R y)) =
     exec w (es @ (if c then [] else F x)) (if c then Inl e else R x)"
  by (simp add: bind_exec bind_exec_Inl)


lemma bind_exec_if2:
  "bind (exec w es (if c then Inr x else Inl e)) (\<lambda>y. exec w (F y) (R y)) =
     exec w (es @ (if c then F x else [])) (if c then R x else Inl e)"
  by (simp add: bind_exec bind_exec_Inl)

lemma experiment_exec:
  "experiment w alg env_type n_epochs a b agent_path =
     exec w (script w alg env_type n_epochs a b agent_path) (outcome w env_type)"
proof -
  have "experiment w alg env_type n_epochs a b agent_path = exec w
     (header alg @
       (if known_env env_type then [mdp_new (the_mdp env_type) 4 gamma horizon] else []) @
       (if known_env env_type then
         [cuda_is_available] @
         (if observation_shape w (the_mdp env_type) = [] then []
          else if action_shape w (the_mdp env_type) = [] then []
          else [alg_new alg (the_args w (the_mdp env_type))] @
               after_agent env_type n_epochs a b agent_path) else []))
     (if known_env env_type then
        if observation_shape w (the_mdp env_type) = [] then Inl IndexError
        else if action_shape w (the_mdp env_type) = [] then Inl IndexError else Inr ()
      else Inl NotImplementedError)"
    unfolding experiment_def Let_def tail_exec
    unfolding calls_exec call_exec select_mdp_exec index0_exec [of _ w] if_exec
    unfolding bind_exec bind_exec_if bind_exec_if2
    by (simp add: header_def the_args_def)
  also have "\<dots> = exec w (script w alg env_type n_epochs a b agent_path) (outcome w env_type)"
    by (simp add: script_def outcome_def shapes_ok_def)
  finally show ?thesis .
qed

lemma exec_never_raises:
  "never_raises w \<Longrightarrow> exec w es r tr = (tr @ es, r)"
  by (induction es arbitrary: tr) (simp_all add: never_raises_def)

lemma exec_prefix: "\<exists>k. fst (exec w es r tr) = tr @ take k es"
proof (induction es arbitrary: tr)
  case Nil
  show ?case by simp
next
  case (Cons e es)
  show ?case
  proof (cases "raises w (tr @ [e])")
    case True
    then have "fst (exec w (e # es) r tr) = tr @ take 1 (e # es)" by simp
    then show ?thesis by blast
  next
    case False
    from Cons [of "tr @ [e]"] obtain k where "fst (exec w es r (tr @ [e])) = (tr @ [e]) @ take k es"
      by blast
    with False have "fst (exec w (e # es) r tr) = tr @ take (Suc k) (e # es)" by simp
    then show ?thesis by blast
  qed
qed

lemma exec_Inr_trace:
  "snd (exec w es r tr) = Inr x \<Longrightarrow> fst (exec w es r tr) = tr @ es"
  by (induction es arbitrary: tr) (simp_all split: if_splits)

lemma exec_Inr_result:
  "snd (exec w es r tr) = Inr x \<Longrightarrow> r = Inr x"
  by (induction es arbitrary: tr) (simp_all split: if_splits)

lemma exec_result: "snd (exec w es r tr) = r \<or> snd (exec w es r tr) = Inl ExternalFailure"
  by (induction es arbitrary: tr) simp_all

lemma experiment_trace:
  "\<exists>k. fst (experiment w alg env_type n_epochs a b agent_path []) =
        take k (script w alg env_type n_epochs a b agent_path)"
  using exec_prefix [of w _ _ "[]"] by (simp add: experiment_exec)

lemma experiment_trace_subset:
  "set (fst (experiment w alg env_type n_epochs a b agent_path [])) \<subseteq>
     set (script w alg env_type n_epochs a b agent_path)"
  using experiment_trace [of w alg env_type n_epochs a b agent_path]
  by (auto dest: in_set_takeD)

lemma experiment_never_raises:
  "never_raises w \<Longrightarrow>
   experiment w alg env_type n_epochs a b agent_path [] =
     (script w alg env_type n_epochs a b agent_path, outcome w env_type)"
  by (simp add: experiment_exec exec_never_raises)

lemma experiment_returns:
  assumes "snd (experiment w alg env_type n_epochs a b agent_path []) = Inr ()"
  shows "fst (experiment w alg env_type n_epochs a b agent_path []) =
           script w alg env_type n_epochs a b agent_path"
    and "known_env env_type" and "shapes_ok w (the_mdp env_type)"
proof -
  from assms have e: "snd (exec w (script w alg env_type n_epochs a b agent_path)
      (outcome w env_type) []) = Inr ()"
    by (simp add: experiment_exec)
  from exec_Inr_trace [OF e]
  show "fst (experiment w alg env_type n_epochs a b agent_path []) =
           script w alg env_type n_epochs a b agent_path"
    by (simp add: experiment_exec)
  from exec_Inr_result [OF e] have "outcome w env_type = Inr ()" .
  then show "known_env env_type" and "shapes_ok w (the_mdp env_type)"
    by (auto simp add: outcome_def split: if_splits)
qed

lemma script_Some:
  "set (script w alg env_type n_epochs a b (Some path)) \<subseteq>
     set (header alg) \<union>
     {mdp_new (the_mdp env_type) 4 gamma horizon, cuda_is_available,
      alg_new alg (the_args w (the_mdp env_type)),
      agent_load path, Core_new (Loaded path), evaluate (n_episodes 20) True False}"
  by (auto simp add: script_def after_agent_def)

text \<open>
  Claim C6. For every call of \<open>experiment\<close> with an \<open>agent_path\<close> that is not \<open>None\<close>:
  the run makes no \<open>learn\<close> call, logs no epoch metrics and writes no checkpoint, whatever
  the other arguments and whatever the framework does; a run that returns has made exactly
  the set-up calls, then loaded the agent from the path, built the \<open>Core\<close> around the loaded
  agent and evaluated 20 rendered episodes; and the run does return when the environment
  name is known, the declared shapes are not empty and no call raises.
\<close>
theorem experiment_agent_path_evaluates_only:
  "(\<forall>e \<in> set (fst (experiment w alg env_type n_epochs a b (Some path) [])).
       \<not> is_learn e \<and> \<not> is_save e \<and> \<not> is_epoch_info e) \<and>
   (snd (experiment w alg env_type n_epochs a b (Some path) []) = Inr () \<longrightarrow>
      known_env env_type \<and>
      fst (experiment w alg env_type n_epochs a b (Some path) []) =
        header alg @
        [mdp_new (the_mdp env_type) 4 gamma horizon, cuda_is_available,
         alg_new alg (the_args w (the_mdp env_type)),
         agent_load path, Core_new (Loaded path), evaluate (n_episodes 20) True False]) \<and>
   (never_raises w \<and> known_env env_type \<and> shapes_ok w (the_mdp env_type) \<longrightarrow>
      snd (experiment w alg env_type n_epochs a b (Some path) []) = Inr ())"
proof (intro conjI ballI impI)
  fix e assume "e \<in> set (fst (experiment w alg env_type n_epochs a b (Some path) []))"
  then have "e \<in> set (header alg) \<union>
     {mdp_new (the_mdp env_type) 4 gamma horizon, cuda_is_available,
      alg_new alg (the_args w (the_mdp env_type)),
      agent_load path, Core_new (Loaded path), evaluate (n_episodes 20) True False}"
    using experiment_trace_subset script_Some by blast
  then show "\<not> is_learn e" "\<not> is_save e" "\<not> is_epoch_info e"
    by (auto simp add: header_def is_learn_def is_save_def is_epoch_info_def)
next
  assume r: "snd (experiment w alg env_type n_epochs a b (Some path) []) = Inr ()"
  from experiment_returns(2) [OF r] show "known_env env_type" .
  from experiment_returns [OF r]
  show "fst (experiment w alg env_type n_epochs a b (Some path) []) =
        header alg @
        [mdp_new (the_mdp env_type) 4 gamma horizon, cuda_is_available,
         alg_new alg (the_args w (the_mdp env_type)),
         agent_load path, Core_new (Loaded path), evaluate (n_episodes 20) True False]"
    by (simp add: script_def after_agent_def)
next
  assume "never_raises w \<and> known_env env_type \<and> shapes_ok w (the_mdp env_type)"
  then show "snd (experiment w alg env_type n_epochs a b (Some path) []) = Inr ()"
    by (simp add: experiment_never_raises outcome_def)
qed

lemma w0_never_raises: "never_raises w0"
  by (simp add: never_raises_def w0_def)

lemma w0_shapes_ok: "shapes_ok w0 mdp"
  by (simp add: shapes_ok_def w0_def)

theorem experiment_agent_path_evaluates_only_witness:
  "snd (experiment w0 ''SAC'' ''hit'' 3 4000 3000 (Some ''agents/a.msh'') []) = Inr () \<and>
   fst (experiment w0 ''SAC'' ''hit'' 3 4000 3000 (Some ''agents/a.msh'') []) =
     [np_random_seed, Logger_new ''SAC'', strong_line, info ''Experiment Algorithm: SAC'',
      mdp_new AirHockeyHit 4 (99 / 100) 120, cuda_is_available,
      alg_new ''SAC'' (the_args w0 AirHockeyHit),
      agent_load ''agents/a.msh'', Core_new (Loaded ''agents/a.msh''),
      evaluate (n_episodes 20) True False]"
proof -
  have k: "known_env ''hit''" by (simp add: known_env_def)
  note t = experiment_agent_path_evaluates_only
    [of w0 "''SAC''" "''hit''" 3 4000 3000 "''agents/a.msh''"]
  from t w0_never_raises w0_shapes_ok k
  have r: "snd (experiment w0 ''SAC'' ''hit'' 3 4000 3000 (Some ''agents/a.msh'') []) = Inr ()"
    by blast
  with t show ?thesis
    by (simp add: header_def the_mdp_def gamma_def horizon_def)
qed

text \<open>
  Claim C10. The entry point passes \<open>agent_path = "agents/air_hockey_defend.msh"\<close>, so it
  takes the evaluation-only branch: no run of \<open>main\<close> contains a \<open>learn\<close> call, an epoch log,
  a checkpoint write or an evaluation with a step budget (the epoch loop is never entered),
  although \<open>n_epochs = 100\<close> and the step budgets are passed; a run that returns has made the
  ten calls listed, and it returns when no call raises and the shapes are not empty.
\<close>
theorem main_never_trains:
  "(\<forall>e \<in> set (fst (main w [])).
       \<not> is_learn e \<and> \<not> is_save e \<and> \<not> is_epoch_info e \<and>
       (\<forall>n r q. e \<noteq> evaluate (n_steps n) r q)) \<and>
   (snd (main w []) = Inr () \<longrightarrow>
      fst (main w []) =
        [np_random_seed, Logger_new ''SAC'', strong_line, info ''Experiment Algorithm: SAC'',
         mdp_new AirHockeyDefend 4 gamma horizon, cuda_is_available,
         alg_new ''SAC'' (the_args w AirHockeyDefend),
         agent_load ''agents/air_hockey_defend.msh'',
         Core_new (Loaded ''agents/air_hockey_defend.msh''),
         evaluate (n_episodes 20) True False]) \<and>
   (never_raises w \<and> shapes_ok w AirHockeyDefend \<longrightarrow> snd (main w []) = Inr ())"
proof (intro conjI ballI impI)
  fix e assume "e \<in> set (fst (main w []))"
  then have "e \<in> set (header ''SAC'') \<union>
     {mdp_new (the_mdp ''defend'') 4 gamma horizon, cuda_is_available,
      alg_new ''SAC'' (the_args w (the_mdp ''defend'')),
      agent_load ''agents/air_hockey_defend.msh'',
      Core_new (Loaded ''agents/air_hockey_defend.msh''), evaluate (n_episodes 20) True False}"
    unfolding main_def using experiment_trace_subset script_Some by blast
  then show "\<not> is_learn e" "\<not> is_save e" "\<not> is_epoch_info e"
    "\<forall>n r q. e \<noteq> evaluate (n_steps n) r q"
    by (auto simp add: header_def is_learn_def is_save_def is_epoch_info_def)
next
  assume r: "snd (main w []) = Inr ()"
  then have "fst (main w []) =
      script w ''SAC'' ''defend'' 100 4000 3000 (Some ''agents/air_hockey_defend.msh'')"
    and "shapes_ok w (the_mdp ''defend'')"
    unfolding main_def by (rule experiment_returns(1), rule experiment_returns(3))
  then show "fst (main w []) =
        [np_random_seed, Logger_new ''SAC'', strong_line, info ''Experiment Algorithm: SAC'',
         mdp_new AirHockeyDefend 4 gamma horizon, cuda_is_available,
         alg_new ''SAC'' (the_args w AirHockeyDefend),
         agent_load ''agents/air_hockey_defend.msh'',
         Core_new (Loaded ''agents/air_hockey_defend.msh''),
         evaluate (n_episodes 20) True False]"
    by (simp add: script_def after_agent_def header_def known_env_def the_mdp_def)
next
  assume "never_raises w \<and> shapes_ok w AirHockeyDefend"
  then show "snd (main w []) = Inr ()"
    by (simp add: main_def experiment_never_raises outcome_def known_env_def the_mdp_def)
qed

theorem main_never_trains_witness:
  "never_raises w0 \<and> shapes_ok w0 AirHockeyDefend \<and> snd (main w0 []) = Inr () \<and>
   length (fst (main w0 [])) = 10 \<and>
   last (fst (main w0 [])) = evaluate (n_episodes 20) True False"
proof -
  note t = main_never_trains [of w0]
  from t w0_never_raises w0_shapes_ok have r: "snd (main w0 []) = Inr ()" by blast
  with t have "fst (main w0 []) =
        [np_random_seed, Logger_new ''SAC'', strong_line, info ''Experiment Algorithm: SAC'',
         mdp_new AirHockeyDefend 4 gamma horizon, cuda_is_available,
         alg_new ''SAC'' (the_args w0 AirHockeyDefend),
         agent_load ''agents/air_hockey_defend.msh'',
         Core_new (Loaded ''agents/air_hockey_defend.msh''),
         evaluate (n_episodes 20) True False]" by blast
  with r w0_never_raises w0_shapes_ok show ?thesis by simp
qed

text \<open>
  Claim C5. For an \<open>env_type\<close> other than \<open>"hit"\<close> and \<open>"defend"\<close> the run always ends
  with an exception, having made only the four logging and seeding calls of the header: no
  environment, agent or \<open>Core\<close> is constructed (the network configuration is only ever
  built for the agent's constructor); when no call raises the exception is
  \<open>NotImplementedError\<close>. For \<open>"hit"\<close> the only environment ever constructed is
  \<open>AirHockeyHit\<close>, for \<open>"defend"\<close> it is \<open>AirHockeyDefend\<close>, and it is constructed (fifth
  call) when no call raises.
\<close>
theorem experiment_selects_environment:
  "(\<not> known_env env_type \<longrightarrow>
      (snd (experiment w alg env_type n_epochs a b agent_path []) = Inl NotImplementedError \<or>
       snd (experiment w alg env_type n_epochs a b agent_path []) = Inl ExternalFailure) \<and>
      (\<forall>e \<in> set (fst (experiment w alg env_type n_epochs a b agent_path [])).
          \<not> is_construction e \<and> e \<in> set (header alg)) \<and>
      (never_raises w \<longrightarrow>
         experiment w alg env_type n_epochs a b agent_path [] =
           (header alg, Inl NotImplementedError))) \<and>
   (known_env env_type \<longrightarrow>
      (\<forall>c n g h. mdp_new c n g h \<in> set (fst (experiment w alg env_type n_epochs a b agent_path []))
         \<longrightarrow> c = (if env_type = ''hit'' then AirHockeyHit else AirHockeyDefend) \<and>
             n = 4 \<and> g = gamma \<and> h = horizon) \<and>
      (never_raises w \<longrightarrow>
         fst (experiment w alg env_type n_epochs a b agent_path []) ! 4 =
           mdp_new (if env_type = ''hit'' then AirHockeyHit else AirHockeyDefend) 4 gamma horizon))"
proof (intro conjI impI)
  assume k: "\<not> known_env env_type"
  then have s: "script w alg env_type n_epochs a b agent_path = header alg"
    and o: "outcome w env_type = Inl NotImplementedError"
    by (simp_all add: script_def outcome_def)
  from exec_result [of w "header alg" "Inl NotImplementedError :: error + unit" "[]"]
  show "snd (experiment w alg env_type n_epochs a b agent_path []) = Inl NotImplementedError \<or>
       snd (experiment w alg env_type n_epochs a b agent_path []) = Inl ExternalFailure"
    by (simp add: experiment_exec s o)
  show "\<forall>e \<in> set (fst (experiment w alg env_type n_epochs a b agent_path [])).
          \<not> is_construction e \<and> e \<in> set (header alg)"
    using experiment_trace_subset [of w alg env_type n_epochs a b agent_path]
    by (auto simp add: s header_def is_construction_def)
  show "experiment w alg env_type n_epochs a b agent_path [] =
           (header alg, Inl NotImplementedError)" if "never_raises w"
    using that by (simp add: experiment_never_raises s o)
next
  assume k: "known_env env_type"
  show "\<forall>c n g h. mdp_new c n g h \<in> set (fst (experiment w alg env_type n_epochs a b agent_path []))
         \<longrightarrow> c = (if env_type = ''hit'' then AirHockeyHit else AirHockeyDefend) \<and>
             n = 4 \<and> g = gamma \<and> h = horizon"
  proof (intro allI impI)
    fix c n g h
    assume "mdp_new c n g h \<in> set (fst (experiment w alg env_type n_epochs a b agent_path []))"
    then have "mdp_new c n g h \<in> set (script w alg env_type n_epochs a b agent_path)"
      using experiment_trace_subset by blast
    then show "c = (if env_type = ''hit'' then AirHockeyHit else AirHockeyDefend) \<and>
             n = 4 \<and> g = gamma \<and> h = horizon"
      by (cases agent_path)
         (auto simp add: script_def header_def after_agent_def baseline_def finish_def
            epoch_events_def the_mdp_def split: if_splits)
  qed
  show "fst (experiment w alg env_type n_epochs a b agent_path []) ! 4 =
           mdp_new (if env_type = ''hit'' then AirHockeyHit else AirHockeyDefend) 4 gamma horizon"
    if "never_raises w"
    using that k by (simp add: experiment_never_raises script_def header_def the_mdp_def)
qed

theorem experiment_selects_environment_witness:
  "\<not> known_env ''foo'' \<and> never_raises w0 \<and>
   experiment w0 ''SAC'' ''foo'' 100 4000 3000 None [] =
     ([np_random_seed, Logger_new ''SAC'', strong_line, info ''Experiment Algorithm: SAC''],
      Inl NotImplementedError) \<and>
   known_env ''hit'' \<and>
   fst (experiment w0 ''SAC'' ''hit'' 100 4000 3000 None []) ! 4 =
     mdp_new AirHockeyHit 4 gamma horizon \<and>
   known_env ''defend'' \<and>
   fst (experiment w0 ''SAC'' ''defend'' 100 4000 3000 None []) ! 4 =
     mdp_new AirHockeyDefend 4 gamma horizon"
proof -
  have k: "\<not> known_env ''foo''" "known_env ''hit''" "known_env ''defend''"
    by (simp_all add: known_env_def)
  from experiment_selects_environment [of "''foo''" w0 "''SAC''" 100 4000 3000 None]
    experiment_selects_environment [of "''hit''" w0 "''SAC''" 100 4000 3000 None]
    experiment_selects_environment [of "''defend''" w0 "''SAC''" 100 4000 3000 None]
    k w0_never_raises
  show ?thesis by (simp add: header_def)
qed

lemma set_takeWhile_take: "set (takeWhile P (take k xs)) \<subseteq> set (takeWhile P xs)"
proof (induction xs arbitrary: k)
  case Nil
  show ?case by simp
next
  case (Cons x xs)
  show ?case using Cons [of "k - 1"] by (cases k) auto
qed

lemma set_dropWhile_take: "set (dropWhile P (take k xs)) \<subseteq> set (dropWhile P xs)"
proof (induction xs arbitrary: k)
  case Nil
  show ?case by simp
next
  case (Cons x xs)
  show ?case using Cons [of "k - 1"] by (cases k) (auto dest: in_set_takeD)
qed

lemma paths_differ: "initial_path env_type \<noteq> final_path env_type"
  by (simp add: initial_path_def final_path_def)

lemma epoch_events_no_save: "e \<in> set (epoch_events a b n) \<Longrightarrow> \<not> is_save e"
  by (auto simp add: epoch_events_def is_save_def)

lemma no_learn_epoch_save:
  "e \<in> set (concat (map (epoch_events a b) ns)) \<Longrightarrow> \<not> is_save e"
  using epoch_events_no_save by auto

lemma script_None:
  "known_env env_type \<Longrightarrow> shapes_ok w (the_mdp env_type) \<Longrightarrow>
   script w alg env_type n_epochs a b None =
     before_save w alg env_type b @
     [agent_save (initial_path env_type) True, learn 5000 5000 True] @
     concat (map (epoch_events a b) [0..<nat n_epochs]) @ finish env_type"
  by (simp add: script_def after_agent_def before_save_def)

lemma script_short:
  "\<not> (known_env env_type \<and> shapes_ok w (the_mdp env_type)) \<Longrightarrow>
   e \<in> set (script w alg env_type n_epochs a b agent_path) \<Longrightarrow> \<not> is_learn e"
  by (auto simp add: script_def header_def is_learn_def split: if_splits)

lemma before_save_plain:
  "e \<in> set (before_save w alg env_type b) \<Longrightarrow> \<not> is_learn e \<and> \<not> is_save e"
  by (auto simp add: before_save_def header_def baseline_def is_learn_def is_save_def)

lemma script_before_initial:
  assumes "e \<in> set (takeWhile (\<lambda>e. e \<noteq> agent_save (initial_path env_type) True)
                      (script w alg env_type n_epochs a b None))"
  shows "\<not> is_learn e"
proof (cases "known_env env_type \<and> shapes_ok w (the_mdp env_type)")
  case True
  let ?s = "agent_save (initial_path env_type) True"
  have "x \<noteq> ?s" if "x \<in> set (before_save w alg env_type b)" for x
    using before_save_plain [OF that] by (auto simp add: is_save_def)
  then have "takeWhile (\<lambda>e. e \<noteq> ?s) (before_save w alg env_type b @ ?s # rest) =
          before_save w alg env_type b" for rest
    by (subst takeWhile_append2) simp_all
  then have "takeWhile (\<lambda>e. e \<noteq> ?s) (script w alg env_type n_epochs a b None) =
          before_save w alg env_type b"
    using True by (simp add: script_None)
  with assms show ?thesis using before_save_plain by auto
next
  case False
  from assms have "e \<in> set (script w alg env_type n_epochs a b None)"
    by (rule set_takeWhileD [THEN conjunct1])
  with script_short [OF False] show ?thesis .
qed

lemma script_after_final:
  assumes "e \<in> set (dropWhile (\<lambda>e. e \<noteq> agent_save (final_path env_type) True)
                      (script w alg env_type n_epochs a b None))"
  shows "\<not> is_learn e"
proof (cases "known_env env_type \<and> shapes_ok w (the_mdp env_type)")
  case True
  let ?s = "agent_save (final_path env_type) True"
  let ?front = "before_save w alg env_type b @
     [agent_save (initial_path env_type) True, learn 5000 5000 True] @
     concat (map (epoch_events a b) [0..<nat n_epochs])"
  have front: "x \<noteq> ?s" if "x \<in> set ?front" for x
  proof
    assume x: "x = ?s"
    then have s: "is_save x" by (simp add: is_save_def)
    from that consider "x \<in> set (before_save w alg env_type b)"
      | "x = agent_save (initial_path env_type) True" | "x = learn 5000 5000 True"
      | "x \<in> set (concat (map (epoch_events a b) [0..<nat n_epochs]))"
      by auto
    then show False
    proof cases
      case 1 with before_save_plain s show ?thesis by blast
    next
      case 2 with x paths_differ [of env_type] show ?thesis by simp
    next
      case 3 with x show ?thesis by simp
    next
      case 4 with no_learn_epoch_save s show ?thesis by blast
    qed
  qed
  have "script w alg env_type n_epochs a b None = ?front @ finish env_type"
    using True by (simp add: script_None)
  moreover have "dropWhile (\<lambda>e. e \<noteq> ?s) (?front @ finish env_type) =
          dropWhile (\<lambda>e. e \<noteq> ?s) (finish env_type)"
    by (rule dropWhile_append2) (rule front)
  ultimately have "dropWhile (\<lambda>e. e \<noteq> ?s) (script w alg env_type n_epochs a b None) =
          dropWhile (\<lambda>e. e \<noteq> ?s) (finish env_type)"
    by simp
  with assms have "e \<in> set (finish env_type)"
    by (auto dest: set_dropWhileD)
  then show ?thesis by (auto simp add: finish_def is_learn_def)
next
  case False
  from assms have "e \<in> set (script w alg env_type n_epochs a b None)"
    by (rule set_dropWhileD)
  with script_short [OF False] show ?thesis .
qed

text \<open>
  Claim C4, amended. In a training run (\<open>agent_path = None\<close>) the initial checkpoint
  \<open>agents/air_hockey_<env_type>_initial.msh\<close> is written before the warm-up phase: no
  \<open>learn\<close> call precedes its write. The final checkpoint \<open>agents/air_hockey_<env_type>.msh\<close>
  is written after the full training run: no \<open>learn\<close> call follows its write. A run that
  returns has made the set-up calls, the baseline evaluation, the initial write, the warm-up
  \<open>learn(5000, 5000)\<close>, the epochs and the final write, in this order.
\<close>
theorem checkpoints_around_learning:
  "(\<forall>e \<in> set (takeWhile (\<lambda>e. e \<noteq> agent_save (initial_path env_type) True)
                (fst (experiment w alg env_type n_epochs a b None []))). \<not> is_learn e) \<and>
   (\<forall>e \<in> set (dropWhile (\<lambda>e. e \<noteq> agent_save (final_path env_type) True)
                (fst (experiment w alg env_type n_epochs a b None []))). \<not> is_learn e) \<and>
   (snd (experiment w alg env_type n_epochs a b None []) = Inr () \<longrightarrow>
      fst (experiment w alg env_type n_epochs a b None []) =
        header alg @
        [mdp_new (the_mdp env_type) 4 gamma horizon, cuda_is_available,
         alg_new alg (the_args w (the_mdp env_type))] @
        baseline b @
        [agent_save (initial_path env_type) True, learn 5000 5000 True] @
        concat (map (epoch_events a b) [0..<nat n_epochs]) @
        finish env_type) \<and>
   (never_raises w \<and> known_env env_type \<and> shapes_ok w (the_mdp env_type) \<longrightarrow>
      snd (experiment w alg env_type n_epochs a b None []) = Inr ())"
proof (intro conjI ballI impI)
  obtain k where k: "fst (experiment w alg env_type n_epochs a b None []) =
      take k (script w alg env_type n_epochs a b None)"
    using experiment_trace by blast
  {
    fix e
    assume "e \<in> set (takeWhile (\<lambda>e. e \<noteq> agent_save (initial_path env_type) True)
                (fst (experiment w alg env_type n_epochs a b None [])))"
    then show "\<not> is_learn e"
      unfolding k by (intro script_before_initial) (rule subsetD [OF set_takeWhile_take])
  }
  {
    fix e
    assume "e \<in> set (dropWhile (\<lambda>e. e \<noteq> agent_save (final_path env_type) True)
                (fst (experiment w alg env_type n_epochs a b None [])))"
    then show "\<not> is_learn e"
      unfolding k by (intro script_after_final) (rule subsetD [OF set_dropWhile_take])
  }
next
  assume r: "snd (experiment w alg env_type n_epochs a b None []) = Inr ()"
  from experiment_returns [OF r]
  show "fst (experiment w alg env_type n_epochs a b None []) =
        header alg @
        [mdp_new (the_mdp env_type) 4 gamma horizon, cuda_is_available,
         alg_new alg (the_args w (the_mdp env_type))] @
        baseline b @
        [agent_save (initial_path env_type) True, learn 5000 5000 True] @
        concat (map (epoch_events a b) [0..<nat n_epochs]) @
        finish env_type"
    by (simp add: script_None before_save_def)
next
  assume "never_raises w \<and> known_env env_type \<and> shapes_ok w (the_mdp env_type)"
  then show "snd (experiment w alg env_type n_epochs a b None []) = Inr ()"
    by (simp add: experiment_never_raises outcome_def)
qed

theorem initial_checkpoint_counterexample:
  "fst (experiment w0 ''SAC'' ''hit'' 0 4000 3000 None []) =
     [np_random_seed, Logger_new ''SAC'', strong_line, info ''Experiment Algorithm: SAC'',
      mdp_new AirHockeyHit 4 (99 / 100) 120, cuda_is_available,
      alg_new ''SAC'' (the_args w0 AirHockeyHit),
      Core_new Constructed, evaluate (n_steps 3000) True False, parse_dataset,
      compute_J (Some (99 / 100)), compute_J None, policy_entropy, epoch_info 0,
      agent_save ''agents/air_hockey_hit_initial.msh'' True,
      learn 5000 5000 True,
      agent_save ''agents/air_hockey_hit.msh'' True,
      info ''Press a button to visualize'', input_wait, evaluate (n_episodes 5) True False]"
  by (simp add: experiment_never_raises [OF w0_never_raises] script_def header_def known_env_def
      the_mdp_def w0_shapes_ok after_agent_def baseline_def finish_def initial_path_def
      final_path_def gamma_def horizon_def)

theorem checkpoints_around_learning_witness:
  "never_raises w0 \<and> known_env ''hit'' \<and> shapes_ok w0 (the_mdp ''hit'') \<and>
   snd (experiment w0 ''SAC'' ''hit'' 2 4000 3000 None []) = Inr () \<and>
   length (fst (experiment w0 ''SAC'' ''hit'' 2 4000 3000 None [])) = 34"
proof -
  note t = checkpoints_around_learning [of "''hit''" w0 "''SAC''" 2 4000 3000]
  have h: "never_raises w0 \<and> known_env ''hit'' \<and> shapes_ok w0 (the_mdp ''hit'')"
    by (simp add: w0_never_raises w0_shapes_ok known_env_def)
  with t have r: "snd (experiment w0 ''SAC'' ''hit'' 2 4000 3000 None []) = Inr ()" by blast
  with t have "fst (experiment w0 ''SAC'' ''hit'' 2 4000 3000 None []) =
        header ''SAC'' @
        [mdp_new (the_mdp ''hit'') 4 gamma horizon, cuda_is_available,
         alg_new ''SAC'' (the_args w0 (the_mdp ''hit''))] @
        baseline 3000 @
        [agent_save (initial_path ''hit'') True, learn 5000 5000 True] @
        concat (map (epoch_events 4000 3000) [0..<nat 2]) @
        finish ''hit''" by blast
  then have "length (fst (experiment w0 ''SAC'' ''hit'' 2 4000 3000 None [])) = 34"
    by (simp add: header_def baseline_def epoch_events_def finish_def numeral_2_eq_2)
  with h r show ?thesis by simp
qed

section \<open>Network configurations\<close>

lemma script_alg_new:
  assumes "alg_new x args \<in> set (take k (script w alg env_type n_epochs a b agent_path))"
  shows "known_env env_type \<and> shapes_ok w (the_mdp env_type) \<and> x = alg \<and>
         args = the_args w (the_mdp env_type) \<and>
         mdp_new (the_mdp env_type) 4 gamma horizon
           \<in> set (take k (script w alg env_type n_epochs a b agent_path))"
proof -
  define front where
    "front = header alg @ [mdp_new (the_mdp env_type) 4 gamma horizon, cuda_is_available]"
  define rest where
    "rest = alg_new alg (the_args w (the_mdp env_type)) #
        after_agent env_type n_epochs a b agent_path"
  from assms have m: "alg_new x args \<in> set (script w alg env_type n_epochs a b agent_path)"
    by (rule in_set_takeD)
  have nf: "alg_new x args \<notin> set front" by (simp add: front_def header_def)
  from m nf have ks: "known_env env_type \<and> shapes_ok w (the_mdp env_type)"
    by (auto simp add: script_def front_def split: if_splits)
  then have s: "script w alg env_type n_epochs a b agent_path = front @ rest"
    by (simp add: script_def front_def rest_def)
  have "alg_new x args \<notin> set (after_agent env_type n_epochs a b agent_path)"
    by (cases agent_path)
       (auto simp add: after_agent_def baseline_def finish_def epoch_events_def)
  with m nf s have eq: "x = alg \<and> args = the_args w (the_mdp env_type)"
    by (auto simp add: rest_def)
  have "length front < k"
  proof (rule ccontr)
    assume "\<not> length front < k"
    then have "take k (front @ rest) = take k front" by simp
    with assms s have "alg_new x args \<in> set front" by (auto dest: in_set_takeD)
    with nf show False by simp
  qed
  then have "set front \<subseteq> set (take k (front @ rest))" by simp
  then have "mdp_new (the_mdp env_type) 4 gamma horizon
           \<in> set (take k (script w alg env_type n_epochs a b agent_path))"
    unfolding s by (auto simp add: front_def)
  with ks eq show ?thesis by simp
qed

text \<open>
  Claim C7. Whenever the driver constructs the agent, the environment it was constructed
  for has been constructed, and the configurations passed are: for both actor networks,
  class \<open>ActorNetwork\<close> with \<open>input_shape\<close> the environment's observation shape and
  \<open>output_shape\<close> its action shape; for the critic, class \<open>CriticNetwork\<close> with
  \<open>input_shape = (obs[0] + act[0],)\<close> and \<open>output_shape = (1,)\<close>. The networks built from
  these configurations have the matching layer widths: input \<open>obs[-1]\<close>, 128 features and
  output \<open>act[0]\<close> for an actor, input \<open>obs[0] + act[0]\<close>, 128 features and output 1 for
  the critic. The agent is constructed when the environment name is known, the shapes are
  not empty and no call raises.
\<close>
theorem network_shapes_match_environment:
  "(\<forall>x args.
      alg_new x args \<in> set (fst (experiment w alg env_type n_epochs a b agent_path [])) \<longrightarrow>
        mdp_new (mdp_info args) 4 gamma horizon
          \<in> set (fst (experiment w alg env_type n_epochs a b agent_path [])) \<and>
        observation_shape w (mdp_info args) \<noteq> [] \<and> action_shape w (mdp_info args) \<noteq> [] \<and>
        network (actor_mu_params args) = ActorNetwork \<and>
        input_shape (actor_mu_params args) = observation_shape w (mdp_info args) \<and>
        output_shape (actor_mu_params args) = action_shape w (mdp_info args) \<and>
        network (actor_sigma_params args) = ActorNetwork \<and>
        input_shape (actor_sigma_params args) = observation_shape w (mdp_info args) \<and>
        output_shape (actor_sigma_params args) = action_shape w (mdp_info args) \<and>
        network (critic_params args) = CriticNetwork \<and>
        input_shape (critic_params args) =
          [hd (observation_shape w (mdp_info args)) + hd (action_shape w (mdp_info args))] \<and>
        output_shape (critic_params args) = [1] \<and>
        (\<forall>g net g'.
           ActorNetwork_init (input_shape (actor_mu_params args))
             (output_shape (actor_mu_params args)) (n_features (actor_mu_params args)) g
             = Inr (net, g') \<longrightarrow>
           wf_net (last (observation_shape w (mdp_info args))) 128
             (hd (action_shape w (mdp_info args))) net) \<and>
        (\<forall>g net g'.
           CriticNetwork_init (input_shape (critic_params args))
             (output_shape (critic_params args)) (n_features (critic_params args)) g
             = Inr (net, g') \<longrightarrow>
           wf_net (hd (observation_shape w (mdp_info args)) + hd (action_shape w (mdp_info args)))
             128 1 net)) \<and>
   (never_raises w \<and> known_env env_type \<and> shapes_ok w (the_mdp env_type) \<longrightarrow>
      alg_new alg (the_args w (the_mdp env_type))
        \<in> set (fst (experiment w alg env_type n_epochs a b agent_path [])))"
proof (intro conjI allI impI)
  fix x args
  assume m: "alg_new x args \<in> set (fst (experiment w alg env_type n_epochs a b agent_path []))"
  obtain k where k: "fst (experiment w alg env_type n_epochs a b agent_path []) =
      take k (script w alg env_type n_epochs a b agent_path)"
    using experiment_trace by blast
  from script_alg_new [OF m [unfolded k]]
  have ok: "shapes_ok w (the_mdp env_type)" and args: "args = the_args w (the_mdp env_type)"
    and mdp: "mdp_new (the_mdp env_type) 4 gamma horizon
           \<in> set (take k (script w alg env_type n_epochs a b agent_path))"
    by simp_all
  have i: "mdp_info args = the_mdp env_type" by (simp add: args the_args_def)
  from mdp show "mdp_new (mdp_info args) 4 gamma horizon
          \<in> set (fst (experiment w alg env_type n_epochs a b agent_path []))"
    by (simp add: k i)
  from ok show "observation_shape w (mdp_info args) \<noteq> []" "action_shape w (mdp_info args) \<noteq> []"
    by (simp_all add: i shapes_ok_def)
  show "network (actor_mu_params args) = ActorNetwork"
    "input_shape (actor_mu_params args) = observation_shape w (mdp_info args)"
    "output_shape (actor_mu_params args) = action_shape w (mdp_info args)"
    "network (actor_sigma_params args) = ActorNetwork"
    "input_shape (actor_sigma_params args) = observation_shape w (mdp_info args)"
    "output_shape (actor_sigma_params args) = action_shape w (mdp_info args)"
    "network (critic_params args) = CriticNetwork"
    "input_shape (critic_params args) =
          [hd (observation_shape w (mdp_info args)) + hd (action_shape w (mdp_info args))]"
    "output_shape (critic_params args) = [1]"
    by (simp_all add: args the_args_def)
  {
    fix g net g'
    assume "ActorNetwork_init (input_shape (actor_mu_params args))
             (output_shape (actor_mu_params args)) (n_features (actor_mu_params args)) g
             = Inr (net, g')"
    then have "CriticNetwork_init (observation_shape w (the_mdp env_type))
        (action_shape w (the_mdp env_type)) 128 g = Inr (net, g')"
      by (simp add: ActorNetwork_init_Critic args the_args_def)
    from CriticNetwork_init_wf [OF this]
    show "wf_net (last (observation_shape w (mdp_info args))) 128
             (hd (action_shape w (mdp_info args))) net"
      by (simp add: i)
  }
  {
    fix g net g'
    assume "CriticNetwork_init (input_shape (critic_params args))
             (output_shape (critic_params args)) (n_features (critic_params args)) g
             = Inr (net, g')"
    then have "CriticNetwork_init
        [hd (observation_shape w (the_mdp env_type)) + hd (action_shape w (the_mdp env_type))]
        [1] 128 g = Inr (net, g')"
      by (simp add: args the_args_def)
    from CriticNetwork_init_wf [OF this]
    show "wf_net (hd (observation_shape w (mdp_info args)) + hd (action_shape w (mdp_info args)))
             128 1 net"
      by (simp add: i)
  }
next
  assume "never_raises w \<and> known_env env_type \<and> shapes_ok w (the_mdp env_type)"
  then show "alg_new alg (the_args w (the_mdp env_type))
        \<in> set (fst (experiment w alg env_type n_epochs a b agent_path []))"
    by (simp add: experiment_never_raises script_def)
qed

theorem network_shapes_match_environment_witness:
  "never_raises w0 \<and> known_env ''defend'' \<and> shapes_ok w0 (the_mdp ''defend'') \<and>
   alg_new ''SAC'' (the_args w0 AirHockeyDefend)
     \<in> set (fst (experiment w0 ''SAC'' ''defend'' 100 4000 3000 None [])) \<and>
   input_shape (actor_mu_params (the_args w0 AirHockeyDefend)) = [3] \<and>
   output_shape (actor_mu_params (the_args w0 AirHockeyDefend)) = [2] \<and>
   input_shape (critic_params (the_args w0 AirHockeyDefend)) = [5] \<and>
   output_shape (critic_params (the_args w0 AirHockeyDefend)) = [1]"
proof -
  note t = network_shapes_match_environment [of w0 "''SAC''" "''defend''" 100 4000 3000 None]
  have h: "never_raises w0 \<and> known_env ''defend'' \<and> shapes_ok w0 (the_mdp ''defend'')"
    by (simp add: w0_never_raises w0_shapes_ok known_env_def)
  have d: "the_mdp ''defend'' = AirHockeyDefend" by (simp add: the_mdp_def)
  from t h have m: "alg_new ''SAC'' (the_args w0 AirHockeyDefend)
     \<in> set (fst (experiment w0 ''SAC'' ''defend'' 100 4000 3000 None []))"
    unfolding d by blast
  with t have
    "input_shape (actor_mu_params (the_args w0 AirHockeyDefend)) =
       observation_shape w0 (mdp_info (the_args w0 AirHockeyDefend))"
    "output_shape (actor_mu_params (the_args w0 AirHockeyDefend)) =
       action_shape w0 (mdp_info (the_args w0 AirHockeyDefend))"
    "input_shape (critic_params (the_args w0 AirHockeyDefend)) =
       [hd (observation_shape w0 (mdp_info (the_args w0 AirHockeyDefend))) +
        hd (action_shape w0 (mdp_info (the_args w0 AirHockeyDefend)))]"
    "output_shape (critic_params (the_args w0 AirHockeyDefend)) = [1]"
    by blast+
  then have
    "input_shape (actor_mu_params (the_args w0 AirHockeyDefend)) = [3]"
    "output_shape (actor_mu_params (the_args w0 AirHockeyDefend)) = [2]"
    "input_shape (critic_params (the_args w0 AirHockeyDefend)) = [5]"
    "output_shape (critic_params (the_args w0 AirHockeyDefend)) = [1]"
    by (simp_all add: w0_def)
  with h m d show ?thesis by simp
qed

section \<open>Order of the critic's input features\<close>

lemma net31_plain:
  "CriticNetwork_forward net31 state_ex action_ex = Inr (Tensor [2] [1, 3])"
  by (simp add: eval_defs net31_def state_ex_def action_ex_def upt_0_2)

lemma permute_state_ex: "permute_cols [1, 0] state_ex = Tensor [2, 2] [2, 1, 4, 3]"
  by (simp add: permute_cols_def pick_def state_ex_def rows_def upt_0_2)

lemma net31_state_permuted:
  "CriticNetwork_forward net31 (permute_cols [1, 0] state_ex) action_ex =
     Inr (Tensor [2] [2, 4])"
  unfolding permute_state_ex by (simp add: eval_defs net31_def action_ex_def upt_0_2)

lemma net31_swapped:
  "CriticNetwork_forward net31 action_ex state_ex = Inr (Tensor [2] [5, 6])"
  by (simp add: eval_defs net31_def state_ex_def action_ex_def upt_0_2)

lemma net31_mid_plain:
  "CriticNetwork_forward net31_mid action_ex state_ex = Inr (Tensor [2] [1, 3])"
  by (simp add: eval_defs net31_mid_def state_ex_def action_ex_def upt_0_2)

lemma net31_mid_action_permuted:
  "CriticNetwork_forward net31_mid action_ex (permute_cols [1, 0] state_ex) =
     Inr (Tensor [2] [2, 4])"
  unfolding permute_state_ex by (simp add: eval_defs net31_mid_def action_ex_def upt_0_2)

lemma wf_net31_mid: "wf_net 3 1 1 net31_mid"
  by (simp add: wf_net_def wf_Linear_def wf_tensor_def net31_mid_def lin_def numel_def)

lemma wf_examples:
  "wf_tensor state_ex" "shape state_ex = [2, 2]" "wf_tensor action_ex" "shape action_ex = [2, 1]"
  by (simp_all add: wf_tensor_def numel_def state_ex_def action_ex_def)

lemma permutation_swap: "permutation_of [1, 0] 2"
  by (simp add: permutation_of_def upt_0_2)

text \<open>
  Claim C8, amended. With the parameters of a \<open>CriticNetwork\<close> fixed, the output depends on
  the order of the features of its input: for some parameters and some state/action batch,
  permuting the features within the state vector alone changes the output; for some,
  permuting the features within the action vector alone changes it; and for some, swapping
  the concatenation order of state and action (the action block first, the state block
  second) changes it. The output is not invariant to any of the three reorderings.
\<close>

theorem critic_feature_order:
  "(\<exists>critic state action p.
      wf_net 3 1 1 critic \<and> wf_tensor state \<and> shape state = [2, 2] \<and>
      wf_tensor action \<and> shape action = [2, 1] \<and> permutation_of p 2 \<and>
      CriticNetwork_forward critic (permute_cols p state) action \<noteq>
        CriticNetwork_forward critic state action) \<and>
   (\<exists>critic state action q.
      wf_net 3 1 1 critic \<and> wf_tensor state \<and> shape state = [2, 1] \<and>
      wf_tensor action \<and> shape action = [2, 2] \<and> permutation_of q 2 \<and>
      CriticNetwork_forward critic state (permute_cols q action) \<noteq>
        CriticNetwork_forward critic state action) \<and>
   (\<exists>critic state action.
      wf_net 3 1 1 critic \<and> wf_tensor state \<and> shape state = [2, 2] \<and>
      wf_tensor action \<and> shape action = [2, 1] \<and>
      CriticNetwork_forward critic action state \<noteq> CriticNetwork_forward critic state action)"
proof (intro conjI)
  have "CriticNetwork_forward net31 (permute_cols [1, 0] state_ex) action_ex \<noteq>
      CriticNetwork_forward net31 state_ex action_ex"
    unfolding net31_plain net31_state_permuted by simp
  with wf_net31 wf_examples permutation_swap
  have "wf_net 3 1 1 net31 \<and> wf_tensor state_ex \<and> shape state_ex = [2, 2] \<and>
      wf_tensor action_ex \<and> shape action_ex = [2, 1] \<and> permutation_of [1, 0] 2 \<and>
      CriticNetwork_forward net31 (permute_cols [1, 0] state_ex) action_ex \<noteq>
        CriticNetwork_forward net31 state_ex action_ex"
    by simp
  then show "\<exists>critic state action p.
      wf_net 3 1 1 critic \<and> wf_tensor state \<and> shape state = [2, 2] \<and>
      wf_tensor action \<and> shape action = [2, 1] \<and> permutation_of p 2 \<and>
      CriticNetwork_forward critic (permute_cols p state) action \<noteq>
        CriticNetwork_forward critic state action"
    by blast
next
  have "CriticNetwork_forward net31_mid action_ex (permute_cols [1, 0] state_ex) \<noteq>
      CriticNetwork_forward net31_mid action_ex state_ex"
    unfolding net31_mid_plain net31_mid_action_permuted by simp
  with wf_net31_mid wf_examples permutation_swap
  have "wf_net 3 1 1 net31_mid \<and> wf_tensor action_ex \<and> shape action_ex = [2, 1] \<and>
      wf_tensor state_ex \<and> shape state_ex = [2, 2] \<and> permutation_of [1, 0] 2 \<and>
      CriticNetwork_forward net31_mid action_ex (permute_cols [1, 0] state_ex) \<noteq>
        CriticNetwork_forward net31_mid action_ex state_ex"
    by simp
  then show "\<exists>critic state action q.
      wf_net 3 1 1 critic \<and> wf_tensor state \<and> shape state = [2, 1] \<and>
      wf_tensor action \<and> shape action = [2, 2] \<and> permutation_of q 2 \<and>
      CriticNetwork_forward critic state (permute_cols q action) \<noteq>
        CriticNetwork_forward critic state action"
    by blast
next
  have "CriticNetwork_forward net31 action_ex state_ex \<noteq>
      CriticNetwork_forward net31 state_ex action_ex"
    unfolding net31_plain net31_swapped by simp
  with wf_net31 wf_examples
  have "wf_net 3 1 1 net31 \<and> wf_tensor state_ex \<and> shape state_ex = [2, 2] \<and>
      wf_tensor action_ex \<and> shape action_ex = [2, 1] \<and>
      CriticNetwork_forward net31 action_ex state_ex \<noteq>
        CriticNetwork_forward net31 state_ex action_ex"
    by simp
  then show "\<exists>critic state action.
      wf_net 3 1 1 critic \<and> wf_tensor state \<and> shape state = [2, 2] \<and>
      wf_tensor action \<and> shape action = [2, 1] \<and>
      CriticNetwork_forward critic action state \<noteq> CriticNetwork_forward critic state action"
    by blast
qed

theorem critic_feature_order_counterexample:
  "CriticNetwork_forward net31 state_ex action_ex = Inr (Tensor [2] [1, 3]) \<and>
   permute_cols [1, 0] state_ex = Tensor [2, 2] [2, 1, 4, 3] \<and>
   CriticNetwork_forward net31 (Tensor [2, 2] [2, 1, 4, 3]) action_ex = Inr (Tensor [2] [2, 4])"
  by (simp add: eval_defs permute_cols_def pick_def net31_def state_ex_def action_ex_def upt_0_2)

end
